theory Spec2Isabelle
  imports Main "HOL-Library.Sublist" "HOL-Library.AList"
begin

section \<open>The binary build cache of \<^verbatim>\<open>lib/spack/spack/binary_distribution.py\<close>\<close>

text \<open>
  The module is a sequence of procedures over the local file system, the mirrors and
  the gpg key ring. Each procedure is embedded as a function that takes the state it
  reads and returns the raised exception or the returned value together with the state
  it leaves behind, so that what is on disk when an exception escapes can be stated.
  Library calls the repository does not define (tar decoding, YAML parsing, SHA-256,
  gpg, the relocation primitives, URL handling) are fields of an environment record.
\<close>

subsection \<open>Values, exceptions, specs\<close>

type_synonym path = string

text \<open>A parsed YAML document, as the Python objects \<^verbatim>\<open>syaml.load\<close> returns.\<close>

datatype pyval =
    PNone
  | PBool bool
  | PInt int
  | PStr string
  | PList "pyval list"
  | PDict "(string \<times> pyval) list"

text \<open>
  The exceptions of the module (lines 55-109) and the built-in ones its statements can
  raise. \<^verbatim>\<open>tty.die(e)\<close> prints \<^verbatim>\<open>e\<close> and exits the process: \<open>Die e\<close>.
\<close>

datatype exn =
    ValueError string
  | NoOverwriteException string
  | NoGpgException
  | NoKeyException
  | PickKeyException "string list"
  | NoVerifyException
  | NoChecksumException
  | NewLayoutException
  | URLError string
  | FetchError string
  | TypeError
  | KeyError string
  | AttributeError
  | FileNotFoundError path
  | NotADirectoryError path
  | IsADirectoryError path
  | ReadError path
  | OtherError string
  | Die exn

text \<open>
  \<^verbatim>\<open>SystemExit\<close> is not an \<^verbatim>\<open>Exception\<close>: a clause \<^verbatim>\<open>except Exception\<close> lets it
  pass.
\<close>

definition is_exit :: "exn \<Rightarrow> bool" where
  "is_exit e = (case e of Die x \<Rightarrow> True | _ \<Rightarrow> False)"

text \<open>
  The attributes and methods of \<^verbatim>\<open>spack.spec.Spec\<close> that the module reads.
  \<open>compiler\<close> is \<^verbatim>\<open>str(spec.compiler)\<close>, \<open>dag_hash\<close> and \<open>full_hash\<close> are the
  results of the methods of these names, \<open>spec_prefix\<close> is \<^verbatim>\<open>spec.prefix\<close>.
\<close>

record spec =
  concrete :: bool
  name :: string
  version :: string
  architecture :: string
  platform :: string
  compiler :: string
  dag_hash :: string
  full_hash :: string
  short_spec :: string
  spec_prefix :: path

subsection \<open>Paths and names (lines 120-228)\<close>

text \<open>\<^verbatim>\<open>os.path.join\<close> of two components (posixpath).\<close>

definition path_join :: "path \<Rightarrow> path \<Rightarrow> path" where
  "path_join a b =
     (if b \<noteq> [] \<and> hd b = CHR ''/'' then b
      else if a = [] \<or> last a = CHR ''/'' then a @ b
      else a @ ''/'' @ b)"

definition build_cache_relative_path :: path where
  "build_cache_relative_path = ''build_cache''"

definition build_cache_prefix :: "path \<Rightarrow> path" where
  "build_cache_prefix p = path_join p build_cache_relative_path"

text \<open>\<^verbatim>\<open>str.replace("@", "-")\<close>.\<close>

definition replace_at :: "string \<Rightarrow> string" where
  "replace_at s = map (\<lambda>c. if c = CHR ''@'' then CHR ''-'' else c) s"

definition tarball_directory_name :: "spec \<Rightarrow> string" where
  "tarball_directory_name s =
     architecture s @ ''/'' @ replace_at (compiler s) @ ''/'' @ name s @ ''-'' @ version s"

definition tarball_name :: "spec \<Rightarrow> string \<Rightarrow> string" where
  "tarball_name s ext =
     architecture s @ ''-'' @ replace_at (compiler s) @ ''-'' @ name s @ ''-'' @
     version s @ ''-'' @ dag_hash s @ ext"

definition tarball_path_name :: "spec \<Rightarrow> string \<Rightarrow> string" where
  "tarball_path_name s ext = path_join (tarball_directory_name s) (tarball_name s ext)"

subsection \<open>Python's \<^verbatim>\<open>in\<close> and subscript on a parsed document\<close>

fun is_infix :: "'a list \<Rightarrow> 'a list \<Rightarrow> bool" where
  "is_infix xs [] = (xs = [])"
| "is_infix xs (y # ys) = (prefix xs (y # ys) \<or> is_infix xs ys)"

text \<open>
  \<^verbatim>\<open>k in v\<close>: key membership on a dict, substring on a string, element membership on
  a list, \<^verbatim>\<open>TypeError\<close> on a value that is not iterable.
\<close>

fun py_contains :: "pyval \<Rightarrow> string \<Rightarrow> exn + bool" where
  "py_contains (PDict d) k = Inr (map_of d k \<noteq> None)"
| "py_contains (PStr s) k = Inr (is_infix k s)"
| "py_contains (PList xs) k = Inr (PStr k \<in> set xs)"
| "py_contains _ k = Inl TypeError"

text \<open>\<^verbatim>\<open>v[k]\<close> with a string key: only a dict accepts it.\<close>

fun py_getitem :: "pyval \<Rightarrow> string \<Rightarrow> exn + pyval" where
  "py_getitem (PDict d) k = (case map_of d k of None \<Rightarrow> Inl (KeyError k) | Some v \<Rightarrow> Inr v)"
| "py_getitem _ k = Inl TypeError"

subsection \<open>The rebuild check (lines 764-870)\<close>

text \<open>
  What \<^verbatim>\<open>needs_rebuild\<close> reads from outside: \<open>read_from_url p\<close> is the outcome of
  the two statements of its \<^verbatim>\<open>try\<close> block (fetch and UTF-8 decoding), the decoded
  text or the exception raised; \<open>yaml_load\<close> is \<^verbatim>\<open>syaml.load\<close>.
\<close>

record net_env =
  read_from_url :: "path \<Rightarrow> exn + string"
  yaml_load :: "string \<Rightarrow> exn + pyval"

text \<open>
  The messages printed with \<^verbatim>\<open>tty.debug\<close> (line 774), \<^verbatim>\<open>tty.error\<close>,
  \<^verbatim>\<open>tty.warn\<close> and \<^verbatim>\<open>tty.msg\<close>, with the values that are formatted into them instead of the formatted
  text. The two reasons of line 815 and line 818 are the two constructors of \<open>reason\<close>.
\<close>

datatype reason =
    HashMismatch pyval string
  | FullHashMissing

datatype message =
    DebugChecking string string string string
  | UnableToDetermine string path
  | ResultOfError string bool
  | ReturnedNothing path
  | Rebuilding string reason
  | CheckingMirror path

definition is_URLError :: "exn \<Rightarrow> bool" where
  "is_URLError e = (case e of URLError r \<Rightarrow> True | _ \<Rightarrow> False)"

definition spec_yaml_path :: "spec \<Rightarrow> path \<Rightarrow> path" where
  "spec_yaml_path s mirror_url =
     path_join (build_cache_prefix mirror_url) (tarball_name s ''.spec.yaml'')"

text \<open>
  Lines 812-824: the comparison of the parsed document with the local full hash. The
  right operand of \<^verbatim>\<open>or\<close> is evaluated only when the key is there.
\<close>

definition compare_full_hash :: "spec \<Rightarrow> pyval \<Rightarrow> exn + (bool \<times> message list)" where
  "compare_full_hash s spec_yaml =
     (case py_contains spec_yaml ''full_hash'' of
        Inl e \<Rightarrow> Inl e
      | Inr False \<Rightarrow> Inr (True, [Rebuilding (short_spec s) FullHashMissing])
      | Inr True \<Rightarrow>
          (case py_getitem spec_yaml ''full_hash'' of
             Inl e \<Rightarrow> Inl e
           | Inr v \<Rightarrow>
               if v \<noteq> PStr (full_hash s)
               then Inr (True, [Rebuilding (short_spec s) (HashMismatch v (full_hash s))])
               else Inr (False, [])))"

text \<open>Prefixing the messages printed so far to an outcome.\<close>

definition logged :: "message list \<Rightarrow> exn + ('a \<times> message list) \<Rightarrow> exn + ('a \<times> message list)" where
  "logged ms r = (case r of Inl e \<Rightarrow> Inl e | Inr (a, l) \<Rightarrow> Inr (a, ms @ l))"

text \<open>
  \<^verbatim>\<open>needs_rebuild(spec, mirror_url, rebuild_on_errors)\<close>: the raised exception, or the
  returned boolean with the messages printed.
\<close>

definition needs_rebuild ::
  "net_env \<Rightarrow> spec \<Rightarrow> path \<Rightarrow> bool \<Rightarrow> exn + (bool \<times> message list)" where
  "needs_rebuild env s mirror_url rebuild_on_errors =
     (if \<not> concrete s then Inl (ValueError ''spec must be concrete to check against mirror'')
      else
        let checking = DebugChecking (name s) (version s) (dag_hash s) (full_hash s);
            file_path = spec_yaml_path s mirror_url;
            result_of_error = ResultOfError (short_spec s) rebuild_on_errors
        in case read_from_url env file_path of
             Inl e \<Rightarrow>
               if is_URLError e
               then Inr (rebuild_on_errors,
                         [checking, UnableToDetermine (short_spec s) file_path, result_of_error])
               else Inl e
           | Inr yaml_contents \<Rightarrow>
               if yaml_contents = []
               then Inr (rebuild_on_errors,
                         [checking, ReturnedNothing file_path, result_of_error])
               else (case yaml_load env yaml_contents of
                       Inl e \<Rightarrow> Inl e
                     | Inr spec_yaml \<Rightarrow> logged [checking] (compare_full_hash s spec_yaml)))"

text \<open>
  A mirror of \<^verbatim>\<open>spack.mirror.MirrorCollection(mirrors).values()\<close>, an element of
  \<^verbatim>\<open>rebuild_list\<close> (lines 854-857) and a value of the \<^verbatim>\<open>rebuilds\<close> dict (lines 860-864).
\<close>

record mirror =
  mirror_name :: string
  fetch_url :: path

record rebuild_spec =
  rs_short_spec :: string
  rs_hash :: string

record mirror_report =
  mirrorName :: string
  mirrorUrl :: path
  rebuildSpecs :: "rebuild_spec list"

definition rebuild_entry :: "spec \<Rightarrow> rebuild_spec" where
  "rebuild_entry s = \<lparr>rs_short_spec = short_spec s, rs_hash = dag_hash s\<rparr>"

text \<open>The inner loop, lines 852-857: \<^verbatim>\<open>rebuild_list\<close> and the messages printed.\<close>

fun rebuild_list_of ::
  "net_env \<Rightarrow> path \<Rightarrow> bool \<Rightarrow> spec list \<Rightarrow> exn + (rebuild_spec list \<times> message list)" where
  "rebuild_list_of env url roe [] = Inr ([], [])"
| "rebuild_list_of env url roe (s # ss) =
     (case needs_rebuild env s url roe of
        Inl e \<Rightarrow> Inl e
      | Inr (b, l) \<Rightarrow>
          (case rebuild_list_of env url roe ss of
             Inl e \<Rightarrow> Inl e
           | Inr (rl, l') \<Rightarrow> Inr ((if b then [rebuild_entry s] else []) @ rl, l @ l')))"

text \<open>
  The outer loop, lines 847-864. The dict \<^verbatim>\<open>rebuilds\<close> is an association list in
  insertion order; a second assignment to a key replaces the value in place.
\<close>

fun check_mirrors ::
  "net_env \<Rightarrow> bool \<Rightarrow> spec list \<Rightarrow> mirror list \<Rightarrow> (path \<times> mirror_report) list \<Rightarrow>
   exn + ((path \<times> mirror_report) list \<times> message list)" where
  "check_mirrors env roe specs [] rebuilds = Inr (rebuilds, [])"
| "check_mirrors env roe specs (m # ms) rebuilds =
     (case rebuild_list_of env (fetch_url m) roe specs of
        Inl e \<Rightarrow> Inl e
      | Inr (rebuild_list, l) \<Rightarrow>
          logged (CheckingMirror (fetch_url m) # l)
            (check_mirrors env roe specs ms
               (if rebuild_list \<noteq> []
                then AList.update (fetch_url m)
                       \<lparr>mirrorName = mirror_name m, mirrorUrl = fetch_url m,
                        rebuildSpecs = rebuild_list\<rparr> rebuilds
                else rebuilds)))"

text \<open>
  \<^verbatim>\<open>check_specs_against_mirrors\<close>: the returned integer, the dict, what was written
  to \<^verbatim>\<open>output_file\<close> (the dict that \<^verbatim>\<open>json.dumps\<close> serialises) and the messages.
\<close>

record check_result =
  returned :: int
  rebuilds :: "(path \<times> mirror_report) list"
  written :: "(path \<times> (path \<times> mirror_report) list) option"
  printed :: "message list"

definition check_specs_against_mirrors ::
  "net_env \<Rightarrow> mirror list \<Rightarrow> spec list \<Rightarrow> path option \<Rightarrow> bool \<Rightarrow> exn + check_result" where
  "check_specs_against_mirrors env mirrors specs output_file rebuild_on_errors =
     (case check_mirrors env rebuild_on_errors specs mirrors [] of
        Inl e \<Rightarrow> Inl e
      | Inr (rb, l) \<Rightarrow>
          Inr \<lparr>returned = (if rb \<noteq> [] then 1 else 0),
               rebuilds = rb,
               written = (case output_file of
                            None \<Rightarrow> None
                          | Some f \<Rightarrow> if f \<noteq> [] then Some (f, rb) else None),
               printed = l\<rparr>)"

text \<open>Whether \<^verbatim>\<open>needs_rebuild\<close> returns true for a spec at a mirror URL.\<close>

definition stale :: "net_env \<Rightarrow> bool \<Rightarrow> path \<Rightarrow> spec \<Rightarrow> bool" where
  "stale env roe url s =
     (case needs_rebuild env s url roe of Inl e \<Rightarrow> False | Inr (b, l) \<Rightarrow> b)"

definition messages_of :: "net_env \<Rightarrow> bool \<Rightarrow> path \<Rightarrow> spec \<Rightarrow> message list" where
  "messages_of env roe url s =
     (case needs_rebuild env s url roe of Inl e \<Rightarrow> [] | Inr (b, l) \<Rightarrow> l)"

text \<open>
  The entries of the specs that \<^verbatim>\<open>needs_rebuild\<close> reports at a URL, the messages one
  mirror's iteration prints, and the mirrors of a list that put a report under a URL.
\<close>

definition stale_entries :: "net_env \<Rightarrow> bool \<Rightarrow> path \<Rightarrow> spec list \<Rightarrow> rebuild_spec list" where
  "stale_entries env roe url specs = map rebuild_entry (filter (stale env roe url) specs)"

definition mirror_messages :: "net_env \<Rightarrow> bool \<Rightarrow> spec list \<Rightarrow> mirror \<Rightarrow> message list" where
  "mirror_messages env roe specs m =
     CheckingMirror (fetch_url m) # concat (map (messages_of env roe (fetch_url m)) specs)"

definition reporting :: "net_env \<Rightarrow> bool \<Rightarrow> spec list \<Rightarrow> path \<Rightarrow> mirror list \<Rightarrow> mirror list" where
  "reporting env roe specs url ms =
     filter (\<lambda>m. fetch_url m = url \<and> stale_entries env roe url specs \<noteq> []) ms"

subsection \<open>The local file system\<close>

text \<open>
  A file system maps a path to what is there. Paths are compared as strings, so the
  model is of normalised paths. A directory's content is every path below it. A link
  is an entry of its own: an operation takes the path it is given and follows no link.
\<close>

datatype node = Dir | File string | Link path

type_synonym fs = "path \<Rightarrow> node option"

definition path_exists :: "fs \<Rightarrow> path \<Rightarrow> bool" where
  "path_exists f p = (f p \<noteq> None)"

text \<open>\<open>under d p\<close>: the path \<open>p\<close> is \<open>d\<close> or lies below the directory \<open>d\<close>.\<close>

definition under :: "path \<Rightarrow> path \<Rightarrow> bool" where
  "under d p = (p = d \<or> prefix (d @ ''/'') p)"

text \<open>\<^verbatim>\<open>shutil.rmtree\<close>: removes a directory and all below it, raises on anything else.\<close>

definition rmtree :: "path \<Rightarrow> fs \<Rightarrow> exn + fs" where
  "rmtree d f =
     (case f d of
        None \<Rightarrow> Inl (FileNotFoundError d)
      | Some Dir \<Rightarrow> Inr (\<lambda>q. if under d q then None else f q)
      | Some n \<Rightarrow> Inl (NotADirectoryError d))"

text \<open>\<^verbatim>\<open>os.remove\<close>.\<close>

definition os_remove :: "path \<Rightarrow> fs \<Rightarrow> exn + fs" where
  "os_remove p f =
     (case f p of
        None \<Rightarrow> Inl (FileNotFoundError p)
      | Some Dir \<Rightarrow> Inl (IsADirectoryError p)
      | Some n \<Rightarrow> Inr (f(p := None)))"

text \<open>\<^verbatim>\<open>open(p, 'r').read()\<close> and \<^verbatim>\<open>open(p, 'w').write(c)\<close>.\<close>

definition read_file :: "fs \<Rightarrow> path \<Rightarrow> exn + string" where
  "read_file f p =
     (case f p of
        None \<Rightarrow> Inl (FileNotFoundError p)
      | Some (File c) \<Rightarrow> Inr c
      | Some n \<Rightarrow> Inl (IsADirectoryError p))"

definition write_file :: "path \<Rightarrow> string \<Rightarrow> fs \<Rightarrow> fs" where
  "write_file p c f = f(p \<mapsto> File c)"

text \<open>\<^verbatim>\<open>os.path.basename\<close> and \<^verbatim>\<open>os.path.dirname\<close> (posixpath).\<close>

definition basename :: "path \<Rightarrow> path" where
  "basename p = rev (takeWhile (\<lambda>c. c \<noteq> CHR ''/'') (rev p))"

definition dirname :: "path \<Rightarrow> path" where
  "dirname p =
     (let head = rev (dropWhile (\<lambda>c. c \<noteq> CHR ''/'') (rev p))
      in if head \<noteq> [] \<and> \<not> list_all (\<lambda>c. c = CHR ''/'') head
         then rev (dropWhile (\<lambda>c. c = CHR ''/'') (rev head))
         else head)"

text \<open>Sequencing: an exception ends the run in the state it was raised in.\<close>

definition and_then ::
  "(exn + 'a) \<times> 's \<Rightarrow> ('a \<Rightarrow> 's \<Rightarrow> (exn + 'b) \<times> 's) \<Rightarrow> (exn + 'b) \<times> 's" where
  "and_then r k = (case r of (Inl e, f) \<Rightarrow> (Inl e, f) | (Inr a, f) \<Rightarrow> k a f)"

text \<open>A call that changes the state or raises, as a step of a run.\<close>

definition lift :: "exn + 's \<Rightarrow> 's \<Rightarrow> (exn + unit) \<times> 's" where
  "lift r f = (case r of Inl e \<Rightarrow> (Inl e, f) | Inr f' \<Rightarrow> (Inr (), f'))"

text \<open>A call that reads a value or raises, leaving the state as it is.\<close>

definition pure :: "exn + 'a \<Rightarrow> 's \<Rightarrow> (exn + 'a) \<times> 's" where
  "pure r f = (r, f)"

subsection \<open>Extracting an archive\<close>

text \<open>
  The path a member named \<open>n\<close> is extracted to by \<^verbatim>\<open>TarFile.extractall(dest)\<close>:
  \<^verbatim>\<open>os.path.join(dest, n)\<close> as the system resolves it, component by component. An
  absolute name replaces \<open>dest\<close>; an empty component and \<^verbatim>\<open>.\<close> stay where they are,
  \<^verbatim>\<open>..\<close> goes one directory up.
\<close>

fun split_path :: "path \<Rightarrow> path list" where
  "split_path [] = [[]]"
| "split_path (c # cs) =
     (if c = CHR ''/'' then [] # split_path cs
      else (case split_path cs of [] \<Rightarrow> [[c]] | x # xs \<Rightarrow> (c # x) # xs))"

definition descend :: "path \<Rightarrow> path \<Rightarrow> path" where
  "descend cur c =
     (if c = [] \<or> c = ''.'' then cur
      else if c = ''..'' then dirname cur
      else path_join cur c)"

definition member_path :: "path \<Rightarrow> path \<Rightarrow> path" where
  "member_path dest n =
     foldl descend (if n \<noteq> [] \<and> hd n = CHR ''/'' then ''/'' else dest) (split_path n)"

text \<open>
  One member: a directory is made unless something is there already
  (\<^verbatim>\<open>os.mkdir\<close>, an existing entry is passed over), a file is written
  (\<^verbatim>\<open>open(targetpath, "wb")\<close> raises on a directory), a link is made in the place of
  what was there.
\<close>

definition extract_member :: "path \<Rightarrow> path \<times> node \<Rightarrow> fs \<Rightarrow> (exn + unit) \<times> fs" where
  "extract_member dest m f =
     (case m of (n, nd) \<Rightarrow>
        let targetpath = member_path dest n in
        (case nd of
           Dir \<Rightarrow> (Inr (), if f targetpath = None then f(targetpath \<mapsto> Dir) else f)
         | File c \<Rightarrow>
             if f targetpath = Some Dir then (Inl (IsADirectoryError targetpath), f)
             else (Inr (), f(targetpath \<mapsto> File c))
         | Link t \<Rightarrow>
             if f targetpath = Some Dir then (Inl (IsADirectoryError targetpath), f)
             else (Inr (), f(targetpath \<mapsto> Link t))))"

text \<open>
  \<^verbatim>\<open>TarFile.extractall(dest)\<close> on the decoded members of an archive, in the order of
  the archive; the first error ends the extraction and leaves what was extracted. The
  module passes no extraction filter and checks no member name (lines 578 and 625).
\<close>

fun extractall :: "path \<Rightarrow> (path \<times> node) list \<Rightarrow> fs \<Rightarrow> (exn + unit) \<times> fs" where
  "extractall dest [] f = (Inr (), f)"
| "extractall dest (m # members) f =
     and_then (extract_member dest m f) (\<lambda>_. extractall dest members)"

text \<open>
  An archive that stays in \<open>dest\<close>: every member is a file or a directory extracted at
  \<open>dest\<close> or below it. No name leads out of \<open>dest\<close>, as an absolute path or through
  \<^verbatim>\<open>..\<close>, and no member is a link, through which a later member would be written
  elsewhere.
\<close>

definition is_link :: "node \<Rightarrow> bool" where
  "is_link nd = (case nd of Link t \<Rightarrow> True | _ \<Rightarrow> False)"

definition contained :: "path \<Rightarrow> (path \<times> node) list \<Rightarrow> bool" where
  "contained dest members =
     list_all (\<lambda>(n, nd). under dest (member_path dest n) \<and> \<not> is_link nd) members"

subsection \<open>The host: what the module calls outside itself\<close>

text \<open>
  \<^item> \<open>has_gnupg2\<close>, \<open>signing_keys\<close>, \<open>gpg_sign key data\<close>, \<open>gpg_verify signature data\<close>:
    \<^verbatim>\<open>spack.util.gpg\<close>; \<open>gpg_verify\<close> is the exception raised, if any;
  \<^item> \<open>sha_init\<close>, \<open>sha_update\<close>, \<open>sha_hexdigest\<close>: a \<^verbatim>\<open>hashlib.sha256()\<close> object;
  \<^item> \<open>untar\<close>: the members of a tar archive, \<open>None\<close> when \<^verbatim>\<open>tarfile.open\<close> raises;
    \<open>tar_of f p arcname\<close>: the archive of the tree at \<open>p\<close>; \<open>mktar\<close>: the archive of
    the listed files;
  \<^item> \<open>syaml_load\<close>, \<open>ruamel_load\<close>, \<open>syaml_dump\<close>: the YAML (de)serialisers;
  \<^item> \<open>mkdtemp\<close>: the name \<^verbatim>\<open>tempfile.mkdtemp()\<close> picks in a file system;
  \<^item> \<open>layout_root\<close>, \<open>metadata_dir\<close>, \<open>manifest_file_name\<close>: \<^verbatim>\<open>spack.store.layout\<close>;
    \<open>spack_prefix\<close>: \<^verbatim>\<open>spack.paths.prefix\<close>;
  \<^item> \<open>relpath\<close>, \<open>realpath\<close>: \<^verbatim>\<open>os.path\<close>; \<open>url_join\<close>, \<open>url_format\<close>: \<^verbatim>\<open>spack.util.url\<close>;
  \<^item> \<open>install_tree src dest\<close>: \<^verbatim>\<open>llnl.util.filesystem.install_tree\<close>, the exception
    raised, if any, and the file system it leaves;
  \<^item> the relocation primitives of \<^verbatim>\<open>spack.relocate\<close>, each the exception raised, if
    any, and the file system it leaves.
\<close>

record host_env =
  has_gnupg2 :: bool
  signing_keys :: "string list"
  gpg_sign :: "string \<Rightarrow> string \<Rightarrow> exn + string"
  gpg_verify :: "string \<Rightarrow> string \<Rightarrow> exn option"
  sha_init :: string
  sha_update :: "string \<Rightarrow> string \<Rightarrow> string"
  sha_hexdigest :: "string \<Rightarrow> string"
  untar :: "string \<Rightarrow> (path \<times> node) list option"
  tar_of :: "fs \<Rightarrow> path \<Rightarrow> string \<Rightarrow> string"
  mktar :: "(string \<times> string) list \<Rightarrow> string"
  syaml_load :: "string \<Rightarrow> exn + pyval"
  ruamel_load :: "string \<Rightarrow> exn + pyval"
  syaml_dump :: "pyval \<Rightarrow> string"
  mkdtemp :: "fs \<Rightarrow> path"
  layout_root :: path
  metadata_dir :: path
  manifest_file_name :: path
  spack_prefix :: path
  relpath :: "path \<Rightarrow> path \<Rightarrow> path"
  realpath :: "path \<Rightarrow> path"
  url_join :: "path \<Rightarrow> path \<Rightarrow> path"
  url_format :: "path \<Rightarrow> string"
  install_tree :: "path \<Rightarrow> path \<Rightarrow> fs \<Rightarrow> exn option \<times> fs"
  relocate_text :: "path set \<Rightarrow> pyval \<Rightarrow> path \<Rightarrow> pyval \<Rightarrow> path \<Rightarrow> fs \<Rightarrow> exn option \<times> fs"
  relocate_macho_binaries :: "path set \<Rightarrow> pyval \<Rightarrow> path \<Rightarrow> bool \<Rightarrow> fs \<Rightarrow> exn option \<times> fs"
  relocate_elf_binaries :: "path set \<Rightarrow> pyval \<Rightarrow> path \<Rightarrow> bool \<Rightarrow> fs \<Rightarrow> exn option \<times> fs"
  relocate_links :: "path set \<Rightarrow> pyval \<Rightarrow> path \<Rightarrow> fs \<Rightarrow> exn option \<times> fs"
  make_relative :: "path \<Rightarrow> spec \<Rightarrow> bool \<Rightarrow> fs \<Rightarrow> exn option \<times> fs"
  make_placeholder :: "path \<Rightarrow> spec \<Rightarrow> bool \<Rightarrow> fs \<Rightarrow> exn option \<times> fs"
  walk_classify :: "fs \<Rightarrow> path \<Rightarrow> string list \<times> string list \<times> string list"

text \<open>An external call that may raise, as a step of a run.\<close>

definition call :: "('s \<Rightarrow> exn option \<times> 's) \<Rightarrow> 's \<Rightarrow> (exn + unit) \<times> 's" where
  "call c f = (case c f of (None, f') \<Rightarrow> (Inr (), f') | (Some e, f') \<Rightarrow> (Inl e, f'))"

subsection \<open>Checksum and signature (lines 231-266)\<close>

text \<open>
  \<^verbatim>\<open>checksum_tarball\<close>: the loop of lines 236-239 reads blocks of 65536 bytes into the
  hasher until a read returns nothing.
\<close>

function hash_blocks :: "host_env \<Rightarrow> string \<Rightarrow> string \<Rightarrow> string" where
  "hash_blocks env hasher rest =
     (let buf = take 65536 rest
      in if length buf > 0 then hash_blocks env (sha_update env hasher buf) (drop 65536 rest)
         else hasher)"
  by pat_completeness auto
termination
  by (relation "measure (\<lambda>(env, hasher, rest). length rest)") auto

declare hash_blocks.simps [simp del]

definition checksum_tarball :: "host_env \<Rightarrow> fs \<Rightarrow> path \<Rightarrow> exn + string" where
  "checksum_tarball env f file =
     (case read_file f file of
        Inl e \<Rightarrow> Inl e
      | Inr bytes \<Rightarrow> Inr (sha_hexdigest env (hash_blocks env (sha_init env) bytes)))"

text \<open>\<^verbatim>\<open>Gpg.sign(key, file, output)\<close> and \<^verbatim>\<open>Gpg.verify(signature, file)\<close> on files.\<close>

definition gpg_sign_file :: "host_env \<Rightarrow> string \<Rightarrow> path \<Rightarrow> path \<Rightarrow> fs \<Rightarrow> (exn + unit) \<times> fs" where
  "gpg_sign_file env key file out f =
     (case read_file f file of
        Inl e \<Rightarrow> (Inl e, f)
      | Inr c \<Rightarrow>
          (case gpg_sign env key c of
             Inl e \<Rightarrow> (Inl e, f)
           | Inr sg \<Rightarrow> (Inr (), write_file out sg f)))"

definition gpg_verify_file :: "host_env \<Rightarrow> path \<Rightarrow> path \<Rightarrow> fs \<Rightarrow> exn option" where
  "gpg_verify_file env sig file f =
     (case read_file f sig of
        Inl e \<Rightarrow> Some e
      | Inr sg \<Rightarrow>
          (case read_file f file of
             Inl e \<Rightarrow> Some e
           | Inr c \<Rightarrow> gpg_verify env sg c))"

text \<open>Lines 250-260: the key that \<^verbatim>\<open>sign_tarball\<close> signs with.\<close>

definition select_key :: "host_env \<Rightarrow> string option \<Rightarrow> exn + string" where
  "select_key env key =
     (case key of
        Some k \<Rightarrow> Inr k
      | None \<Rightarrow>
          (let keys = signing_keys env
           in if length keys = 1 then Inr (keys ! 0)
              else if length keys > 1 then Inl (PickKeyException keys)
              else Inl NoKeyException))"

text \<open>Lines 261-266: the overwrite guard on the signature file, then \<^verbatim>\<open>Gpg.sign\<close>.\<close>

definition overwrite_and_sign ::
  "host_env \<Rightarrow> string \<Rightarrow> bool \<Rightarrow> path \<Rightarrow> fs \<Rightarrow> (exn + unit) \<times> fs" where
  "overwrite_and_sign env k force specfile_path f =
     (let asc = specfile_path @ ''.asc'' in
      and_then
        (if path_exists f asc
         then (if force then lift (os_remove asc f) f
               else (Inl (NoOverwriteException asc), f))
         else (Inr (), f))
        (\<lambda>_. gpg_sign_file env k specfile_path asc))"

text \<open>\<^verbatim>\<open>sign_tarball(key, force, specfile_path)\<close>.\<close>

definition sign_tarball ::
  "host_env \<Rightarrow> string option \<Rightarrow> bool \<Rightarrow> path \<Rightarrow> fs \<Rightarrow> (exn + unit) \<times> fs" where
  "sign_tarball env key force specfile_path f =
     (if \<not> has_gnupg2 env then (Inl NoGpgException, f)
      else
        and_then (pure (select_key env key) f)
          (\<lambda>k. overwrite_and_sign env k force specfile_path))"

subsection \<open>Reading a parsed document\<close>

text \<open>\<^verbatim>\<open>d.get(k, default)\<close>: only a dict has the method.\<close>

fun py_get :: "pyval \<Rightarrow> string \<Rightarrow> pyval \<Rightarrow> exn + pyval" where
  "py_get (PDict d) k dflt = (case map_of d k of None \<Rightarrow> Inr dflt | Some v \<Rightarrow> Inr v)"
| "py_get _ k dflt = Inl AttributeError"

text \<open>The truth value of an object in a condition.\<close>

fun py_truthy :: "pyval \<Rightarrow> bool" where
  "py_truthy PNone = False"
| "py_truthy (PBool b) = b"
| "py_truthy (PInt i) = (i \<noteq> 0)"
| "py_truthy (PStr s) = (s \<noteq> [])"
| "py_truthy (PList xs) = (xs \<noteq> [])"
| "py_truthy (PDict d) = (d \<noteq> [])"

text \<open>
  \<^verbatim>\<open>for filename in v: ... os.path.join(workdir, filename)\<close>: the joined paths, in
  order. A list is iterated by element, a string by character, a dict by key; joining a
  path with anything but a string raises.
\<close>

fun as_string :: "pyval \<Rightarrow> exn + string" where
  "as_string (PStr s) = Inr s"
| "as_string _ = Inl TypeError"

fun all_strings :: "pyval list \<Rightarrow> exn + string list" where
  "all_strings [] = Inr []"
| "all_strings (v # vs) =
     (case as_string v of
        Inl e \<Rightarrow> Inl e
      | Inr s \<Rightarrow> (case all_strings vs of Inl e \<Rightarrow> Inl e | Inr ss \<Rightarrow> Inr (s # ss)))"

fun joined_paths :: "path \<Rightarrow> pyval \<Rightarrow> exn + path list" where
  "joined_paths workdir (PList vs) =
     (case all_strings vs of Inl e \<Rightarrow> Inl e | Inr ss \<Rightarrow> Inr (map (path_join workdir) ss))"
| "joined_paths workdir (PStr s) = Inr (map (\<lambda>c. path_join workdir [c]) s)"
| "joined_paths workdir (PDict d) = Inr (map (\<lambda>(k, v). path_join workdir k) d)"
| "joined_paths workdir _ = Inl TypeError"

subsection \<open>Relocation at install time (lines 128-144, 512-554)\<close>

definition buildinfo_file_name :: "path \<Rightarrow> path" where
  "buildinfo_file_name p = path_join p ''.spack/binary_distribution''"

definition read_buildinfo_file :: "host_env \<Rightarrow> path \<Rightarrow> fs \<Rightarrow> exn + pyval" where
  "read_buildinfo_file env p f =
     (case read_file f (buildinfo_file_name p) of
        Inl e \<Rightarrow> Inl e
      | Inr content \<Rightarrow> ruamel_load env content)"

definition ends_with_tilde :: "path \<Rightarrow> bool" where
  "ends_with_tilde p = (p \<noteq> [] \<and> last p = CHR ''~'')"

text \<open>
  \<^verbatim>\<open>relocate_package(workdir, spec, allow_root)\<close>. The values read from the build
  info are handed to the primitives as they are; the sets of paths are sets.
\<close>

definition relocate_package ::
  "host_env \<Rightarrow> path \<Rightarrow> spec \<Rightarrow> bool \<Rightarrow> fs \<Rightarrow> (exn + unit) \<times> fs" where
  "relocate_package env workdir s allow_root f0 =
     and_then (pure (read_buildinfo_file env workdir f0) f0) (\<lambda>buildinfo f.
     let new_path = layout_root env; new_prefix = spack_prefix env in
     and_then (pure (py_getitem buildinfo ''buildpath'') f) (\<lambda>old_path f.
     and_then (pure (py_get buildinfo ''spackprefix''
                       (PStr ''/not/in/buildinfo/dictionary'')) f) (\<lambda>old_prefix f.
     and_then (pure (py_get buildinfo ''relative_rpaths'' (PBool False)) f) (\<lambda>rel f.
     if py_truthy rel then (Inr (), f)
     else
       and_then (pure (py_getitem buildinfo ''relocate_textfiles'') f) (\<lambda>textfiles f.
       and_then (pure (joined_paths workdir textfiles) f) (\<lambda>text_names f.
       and_then (call (relocate_text env {p \<in> set text_names. \<not> ends_with_tilde p}
                         old_path new_path old_prefix new_prefix) f) (\<lambda>_ f.
       and_then (pure (py_getitem buildinfo ''relocate_binaries'') f) (\<lambda>binaries f.
       and_then (pure (joined_paths workdir binaries) f) (\<lambda>binary_names f.
       and_then (if platform s = ''darwin''
                 then call (relocate_macho_binaries env (set binary_names)
                              old_path new_path allow_root) f
                 else call (relocate_elf_binaries env (set binary_names)
                              old_path new_path allow_root) f) (\<lambda>_ f.
       and_then (pure (py_get buildinfo ''relocate_links'' (PList [])) f) (\<lambda>links f.
       and_then (pure (joined_paths workdir links) f) (\<lambda>link_names f.
       call (relocate_links env (set link_names) old_path new_path) f))))))))))))"

subsection \<open>Installing from an archive (lines 557-649)\<close>

text \<open>
  Lines 562-568: the overwrite guard on the install prefix and the temporary directory,
  which is the value.
\<close>

definition make_room :: "host_env \<Rightarrow> spec \<Rightarrow> bool \<Rightarrow> fs \<Rightarrow> (exn + path) \<times> fs" where
  "make_room env s force f0 =
     and_then
       (if path_exists f0 (spec_prefix s)
        then (if force then lift (rmtree (spec_prefix s) f0) f0
              else (Inl (NoOverwriteException (spec_prefix s)), f0))
        else (Inr (), f0)) (\<lambda>_ f.
     let tmpdir = mkdtemp env f in (Inr tmpdir, f(tmpdir \<mapsto> Dir)))"

text \<open>\<^verbatim>\<open>tarfile.open(p, 'r')\<close>: the members of the archive at \<open>p\<close>.\<close>

definition tar_open :: "host_env \<Rightarrow> path \<Rightarrow> fs \<Rightarrow> exn + (path \<times> node) list" where
  "tar_open env p f =
     (case read_file f p of
        Inl e \<Rightarrow> Inl e
      | Inr bytes \<Rightarrow>
          (case untar env bytes of
             None \<Rightarrow> Inl (ReadError p)
           | Some members \<Rightarrow> Inr members))"

text \<open>The path of lines 567-569.\<close>

definition spackfile_path_of :: "spec \<Rightarrow> path \<Rightarrow> path" where
  "spackfile_path_of s filename = path_join (dirname filename) (tarball_name s ''.spack'')"

text \<open>
  Lines 562-578: the guard, the temporary directory and the unpacking of the
  \<^verbatim>\<open>.spack\<close> archive into it. The value is the temporary directory.
\<close>

definition unpack ::
  "host_env \<Rightarrow> spec \<Rightarrow> path \<Rightarrow> bool \<Rightarrow> fs \<Rightarrow> (exn + path) \<times> fs" where
  "unpack env s filename force f0 =
     and_then (make_room env s force f0) (\<lambda>tmpdir f.
     and_then (pure (tar_open env (spackfile_path_of s filename) f) f) (\<lambda>members f.
     and_then (extractall tmpdir members f) (\<lambda>_ f.
     (Inr tmpdir, f))))"

text \<open>The paths of lines 572-575.\<close>

definition tarfile_path_in :: "spec \<Rightarrow> path \<Rightarrow> path" where
  "tarfile_path_in s tmpdir = path_join tmpdir (tarball_name s ''.tar.gz'')"

definition specfile_path_in :: "spec \<Rightarrow> path \<Rightarrow> path" where
  "specfile_path_in s tmpdir = path_join tmpdir (tarball_name s ''.spec.yaml'')"

text \<open>Raising after the temporary directory is removed.\<close>

definition discard_and_raise :: "path \<Rightarrow> exn \<Rightarrow> fs \<Rightarrow> (exn + 'a) \<times> fs" where
  "discard_and_raise tmpdir e f =
     (case rmtree tmpdir f of Inl e' \<Rightarrow> (Inl e', f) | Inr f' \<Rightarrow> (Inl e, f'))"

text \<open>Lines 579-591: the signature.\<close>

definition verify_signature ::
  "host_env \<Rightarrow> bool \<Rightarrow> path \<Rightarrow> path \<Rightarrow> fs \<Rightarrow> (exn + unit) \<times> fs" where
  "verify_signature env unsigned tmpdir specfile_path f =
     (if \<not> unsigned
      then (if path_exists f (specfile_path @ ''.asc'')
            then (case gpg_verify_file env (specfile_path @ ''.asc'') specfile_path f of
                    Some e \<Rightarrow>
                      if is_exit e then (Inl e, f)
                      else discard_and_raise tmpdir (Die e) f
                  | None \<Rightarrow> (Inr (), f))
            else discard_and_raise tmpdir NoVerifyException f)
      else (Inr (), f))"

text \<open>Lines 592-607: the checksum. The value is \<^verbatim>\<open>spec_dict\<close>.\<close>

definition verify_checksum ::
  "host_env \<Rightarrow> path \<Rightarrow> path \<Rightarrow> path \<Rightarrow> fs \<Rightarrow> (exn + pyval) \<times> fs" where
  "verify_checksum env tmpdir tarfile_path specfile_path f0 =
     and_then (pure (checksum_tarball env f0 tarfile_path) f0) (\<lambda>checksum f.
     and_then (pure (read_file f specfile_path) f) (\<lambda>content f.
     and_then (pure (syaml_load env content) f) (\<lambda>spec_dict f.
     and_then (pure (py_getitem spec_dict ''binary_cache_checksum'') f) (\<lambda>bchecksum f.
     and_then (pure (py_getitem bchecksum ''hash'') f) (\<lambda>h f.
     if h \<noteq> PStr checksum then discard_and_raise tmpdir NoChecksumException f
     else (Inr spec_dict, f))))))"

text \<open>Lines 609-621: the directory layout.\<close>

definition check_layout ::
  "host_env \<Rightarrow> spec \<Rightarrow> path \<Rightarrow> pyval \<Rightarrow> fs \<Rightarrow> (exn + unit) \<times> fs" where
  "check_layout env s tmpdir spec_dict f0 =
     (let new_relative_prefix = relpath env (spec_prefix s) (layout_root env) in
      and_then (pure (py_get spec_dict ''buildinfo'' (PDict [])) f0) (\<lambda>buildinfo f.
      and_then (pure (py_get buildinfo ''relative_prefix'' (PStr new_relative_prefix)) f)
        (\<lambda>old_relative_prefix f.
      if old_relative_prefix \<noteq> PStr new_relative_prefix
      then discard_and_raise tmpdir NewLayoutException f
      else (Inr (), f))))"

text \<open>Lines 623-634: the payload is extracted and copied into the install prefix.\<close>

definition install_payload ::
  "host_env \<Rightarrow> spec \<Rightarrow> path \<Rightarrow> fs \<Rightarrow> (exn + unit) \<times> fs" where
  "install_payload env s tmpdir f0 =
     and_then (pure (tar_open env (tarfile_path_in s tmpdir) f0) f0) (\<lambda>members f.
     and_then (extractall tmpdir members f) (\<lambda>_ f.
     let workdir = path_join tmpdir (basename (spec_prefix s)) in
     and_then (call (install_tree env workdir (spec_prefix s)) f) (\<lambda>_ f.
     and_then (lift (os_remove (tarfile_path_in s tmpdir) f) f) (\<lambda>_ f.
     lift (os_remove (specfile_path_in s tmpdir) f) f))))"

text \<open>
  Lines 636-649: relocation, with its \<^verbatim>\<open>except\<close>, \<^verbatim>\<open>else\<close> and \<^verbatim>\<open>finally\<close> clauses.
  The value is the warning printed, if any.
\<close>

datatype warning = NoManifestFile string

definition manifest_file :: "host_env \<Rightarrow> spec \<Rightarrow> path" where
  "manifest_file env s =
     path_join (path_join (spec_prefix s) (metadata_dir env)) (manifest_file_name env)"

definition finally_rmtree :: "path \<Rightarrow> (exn + 'a) \<times> fs \<Rightarrow> (exn + 'a) \<times> fs" where
  "finally_rmtree tmpdir r =
     (case r of (out, f) \<Rightarrow>
        (case rmtree tmpdir f of Inl e \<Rightarrow> (Inl e, f) | Inr f' \<Rightarrow> (out, f')))"

definition relocate_installed ::
  "host_env \<Rightarrow> spec \<Rightarrow> bool \<Rightarrow> path \<Rightarrow> fs \<Rightarrow> (exn + warning list) \<times> fs" where
  "relocate_installed env s allow_root tmpdir f0 =
     finally_rmtree tmpdir
       (case relocate_package env (spec_prefix s) s allow_root f0 of
          (Inl e, f) \<Rightarrow>
            if is_exit e then (Inl e, f)
            else (case rmtree (spec_prefix s) f of
                    Inl e' \<Rightarrow> (Inl e', f)
                  | Inr f' \<Rightarrow> (Inl (Die e), f'))
        | (Inr u, f) \<Rightarrow>
            (Inr (if \<not> path_exists f (manifest_file env s)
                  then [NoManifestFile (name s @ ''/'' @ take 7 (dag_hash s))]
                  else []), f))"

text \<open>\<^verbatim>\<open>extract_tarball(spec, filename, allow_root, unsigned, force)\<close>.\<close>

definition extract_tarball ::
  "host_env \<Rightarrow> spec \<Rightarrow> path \<Rightarrow> bool \<Rightarrow> bool \<Rightarrow> bool \<Rightarrow> fs \<Rightarrow> (exn + warning list) \<times> fs" where
  "extract_tarball env s filename allow_root unsigned force f0 =
     and_then (unpack env s filename force f0) (\<lambda>tmpdir f.
     and_then (verify_signature env unsigned tmpdir (specfile_path_in s tmpdir) f) (\<lambda>_ f.
     and_then (verify_checksum env tmpdir (tarfile_path_in s tmpdir)
                 (specfile_path_in s tmpdir) f) (\<lambda>spec_dict f.
     and_then (check_layout env s tmpdir spec_dict f) (\<lambda>_ f.
     and_then (install_payload env s tmpdir f) (\<lambda>_ f.
     relocate_installed env s allow_root tmpdir f)))))"

subsection \<open>The specs available on the mirrors (lines 652-711)\<close>

text \<open>
  \<^verbatim>\<open>re.search('spec.yaml', s)\<close>: the pattern matches \<^verbatim>\<open>spec\<close>, any character but a
  newline, \<^verbatim>\<open>yaml\<close>, anywhere in \<open>s\<close>.
\<close>

definition match_spec_yaml_here :: "string \<Rightarrow> bool" where
  "match_spec_yaml_here s =
     (9 \<le> length s \<and> take 4 s = ''spec'' \<and> s ! 4 \<noteq> CHR 0x0A \<and> take 4 (drop 5 s) = ''yaml'')"

fun re_search_spec_yaml :: "string \<Rightarrow> bool" where
  "re_search_spec_yaml [] = False"
| "re_search_spec_yaml (c # cs) = (match_spec_yaml_here (c # cs) \<or> re_search_spec_yaml cs)"

text \<open>
  What \<^verbatim>\<open>get_specs\<close> calls outside the module:
  \<^item> \<open>mirror_collection\<close>: \<^verbatim>\<open>spack.mirror.MirrorCollection().values()\<close>;
  \<^item> \<open>local_file_path\<close>: \<^verbatim>\<open>url_util.local_file_path\<close>, \<open>None\<close> for a URL that is not
    a local path; \<open>mirror_url_join\<close>: \<^verbatim>\<open>url_util.join\<close>;
  \<^item> \<open>listdir\<close>: the entries of a local directory, \<open>None\<close> when it does not exist;
  \<^item> \<open>spider\<close>: the links \<^verbatim>\<open>web_util.spider\<close> finds at a URL, or the exception raised;
  \<^item> \<open>save_filename\<close>, \<open>stage_fetch\<close>: the file a \<^verbatim>\<open>Stage\<close> of a link saves to, and
    the content \<^verbatim>\<open>stage.fetch()\<close> puts there or the exception raised;
  \<^item> \<open>from_yaml\<close>: \<^verbatim>\<open>Spec.from_yaml\<close>.
\<close>

record mirrors_env =
  mirror_collection :: "mirror list"
  local_file_path :: "path \<Rightarrow> path option"
  mirror_url_join :: "path \<Rightarrow> path \<Rightarrow> path"
  listdir :: "path \<Rightarrow> string list option"
  spider :: "path \<Rightarrow> exn + string list"
  save_filename :: "path \<Rightarrow> path"
  stage_fetch :: "path \<Rightarrow> exn + string"
  from_yaml :: "string \<Rightarrow> exn + spec"

text \<open>
  The state of the process: the module global \<^verbatim>\<open>_cached_specs\<close> (\<open>None\<close> is Python's
  \<^verbatim>\<open>None\<close>), the local file system, and the queries made to mirrors so far.
\<close>

datatype query = Listdir path | Spider path | StageFetch path

record process =
  cached_specs :: "spec list option"
  disk :: fs
  queries :: "query list"

text \<open>What \<^verbatim>\<open>get_specs\<close> returns: the dict \<^verbatim>\<open>{}\<close> of line 668, or a list of specs.\<close>

datatype specs_result = EmptyDict | SpecList "spec list"

definition asked :: "query \<Rightarrow> process \<Rightarrow> process" where
  "asked q st = st\<lparr>queries := queries st @ [q]\<rparr>"

definition is_FetchError :: "exn \<Rightarrow> bool" where
  "is_FetchError e = (case e of FetchError r \<Rightarrow> True | _ \<Rightarrow> False)"

text \<open>
  Lines 670-691: the URLs of the \<^verbatim>\<open>spec.yaml\<close> files of every mirror. The set
  \<^verbatim>\<open>urls\<close> is the list of the links added, read without duplicates at line 694.
\<close>

fun collect_urls ::
  "mirrors_env \<Rightarrow> mirror list \<Rightarrow> path list \<Rightarrow> process \<Rightarrow> (exn + path list) \<times> process" where
  "collect_urls env [] urls st = (Inr urls, st)"
| "collect_urls env (m # ms) urls st =
     (let fetch_url_build_cache = mirror_url_join env (fetch_url m) build_cache_relative_path;
          mirror_dir = local_file_path env fetch_url_build_cache
      in if mirror_dir \<noteq> None \<and> mirror_dir \<noteq> Some []
         then (case listdir env (the mirror_dir) of
                 None \<Rightarrow> collect_urls env ms urls st
               | Some files \<Rightarrow>
                   collect_urls env ms
                     (urls @ map (mirror_url_join env fetch_url_build_cache)
                               (filter re_search_spec_yaml files))
                     (asked (Listdir (the mirror_dir)) st))
         else (case spider env (mirror_url_join env fetch_url_build_cache ''index.html'') of
                 Inl e \<Rightarrow>
                   (Inl e, asked (Spider (mirror_url_join env fetch_url_build_cache
                                            ''index.html'')) st)
               | Inr links \<Rightarrow>
                   collect_urls env ms (urls @ filter re_search_spec_yaml links)
                     (asked (Spider (mirror_url_join env fetch_url_build_cache
                                       ''index.html'')) st)))"

text \<open>
  Lines 696-702 for one link: the value tells whether the staged file is read (it is
  not after \<^verbatim>\<open>FetchError\<close>, where the loop continues with the next link).
\<close>

definition stage_link :: "mirrors_env \<Rightarrow> bool \<Rightarrow> path \<Rightarrow> process \<Rightarrow> (exn + bool) \<times> process" where
  "stage_link env force link st0 =
     (let fn = save_filename env link in
      and_then
        (if force \<and> path_exists (disk st0) fn
         then (case os_remove fn (disk st0) of
                 Inl e \<Rightarrow> (Inl e, st0)
               | Inr d \<Rightarrow> (Inr (), st0\<lparr>disk := d\<rparr>))
         else (Inr (), st0)) (\<lambda>_ st.
      if \<not> path_exists (disk st) fn
      then (case stage_fetch env link of
              Inl e \<Rightarrow>
                if is_FetchError e then (Inr False, asked (StageFetch link) st)
                else (Inl e, asked (StageFetch link) st)
            | Inr content \<Rightarrow>
                (Inr True, asked (StageFetch link) (st\<lparr>disk := write_file fn content (disk st)\<rparr>)))
      else (Inr True, st)))"

text \<open>Line 709: \<^verbatim>\<open>_cached_specs.append(spec)\<close>.\<close>

definition append_cached :: "spec \<Rightarrow> process \<Rightarrow> (exn + unit) \<times> process" where
  "append_cached sp st =
     (case cached_specs st of
        None \<Rightarrow> (Inl AttributeError, st)
      | Some xs \<Rightarrow> (Inr (), st\<lparr>cached_specs := Some (xs @ [sp])\<rparr>))"

text \<open>The loop of lines 694-709.\<close>

fun read_specs :: "mirrors_env \<Rightarrow> bool \<Rightarrow> path list \<Rightarrow> process \<Rightarrow> (exn + unit) \<times> process" where
  "read_specs env force [] st = (Inr (), st)"
| "read_specs env force (link # links) st0 =
     and_then (stage_link env force link st0) (\<lambda>staged st.
     if \<not> staged then read_specs env force links st
     else
       and_then (pure (read_file (disk st) (save_filename env link)) st) (\<lambda>content st.
       and_then (pure (from_yaml env content) st) (\<lambda>sp st.
       and_then (append_cached (sp\<lparr>concrete := True\<rparr>) st) (\<lambda>_ st.
       read_specs env force links st))))"

text \<open>
  \<^verbatim>\<open>get_specs(force)\<close>. The condition of line 662 is the truth value of the global: a
  list is true when it is not empty. From line 693 on the global is a list, which line
  711 returns.
\<close>

definition get_specs :: "mirrors_env \<Rightarrow> bool \<Rightarrow> process \<Rightarrow> (exn + specs_result) \<times> process" where
  "get_specs env force st0 =
     (case cached_specs st0 of
        Some (x # xs) \<Rightarrow> (Inr (SpecList (x # xs)), st0)
      | _ \<Rightarrow>
          if mirror_collection env = [] then (Inr EmptyDict, st0)
          else
            and_then (collect_urls env (mirror_collection env) [] st0) (\<lambda>urls st.
            and_then (read_specs env force (remdups urls) (st\<lparr>cached_specs := Some []\<rparr>))
              (\<lambda>_ st. (Inr (SpecList (case cached_specs st of None \<Rightarrow> [] | Some xs \<Rightarrow> xs)), st))))"

text \<open>A sequence of calls, each in the world it finds: the results, and the last state.\<close>

fun get_specs_calls ::
  "(mirrors_env \<times> bool) list \<Rightarrow> process \<Rightarrow> (exn + specs_result) list \<times> process" where
  "get_specs_calls [] st = ([], st)"
| "get_specs_calls ((env, force) # cs) st =
     (case get_specs env force st of
        (r, st') \<Rightarrow> (case get_specs_calls cs st' of (rs, st'') \<Rightarrow> (r # rs, st'')))"

subsection \<open>Packaging and publishing (lines 147-196, 269-438)\<close>

text \<open>
  The world of \<^verbatim>\<open>build_tarball\<close>: the local file system, what the mirror holds under
  each URL, and the mutations of the mirror in the order they were made.
\<close>

datatype remote_op = RemoveUrl path | PushUrl path

record world =
  wfiles :: fs
  remote :: "path \<Rightarrow> string option"
  remote_log :: "remote_op list"

text \<open>
  The host with the transport of \<^verbatim>\<open>spack.util.web\<close>: \<open>push_error\<close> and
  \<open>remove_error\<close> are the exception a transfer to, or a removal of, a URL raises, if
  any; \<open>list_url\<close> lists what a mirror holds below a URL.
\<close>

record publisher =
  local_host :: host_env
  push_error :: "path \<Rightarrow> exn option"
  remove_error :: "path \<Rightarrow> exn option"
  list_url :: "(path \<Rightarrow> string option) \<Rightarrow> path \<Rightarrow> exn + string list"

definition url_exists :: "world \<Rightarrow> path \<Rightarrow> bool" where
  "url_exists w url = (remote w url \<noteq> None)"

definition remove_url :: "publisher \<Rightarrow> path \<Rightarrow> world \<Rightarrow> (exn + unit) \<times> world" where
  "remove_url env url w =
     (case remove_error env url of
        Some e \<Rightarrow> (Inl e, w)
      | None \<Rightarrow> (Inr (), w\<lparr>remote := (remote w)(url := None),
                            remote_log := remote_log w @ [RemoveUrl url]\<rparr>))"

text \<open>\<^verbatim>\<open>push_to_url(local_path, url, keep_original=False)\<close>: the local file moves.\<close>

definition push_to_url :: "publisher \<Rightarrow> path \<Rightarrow> path \<Rightarrow> world \<Rightarrow> (exn + unit) \<times> world" where
  "push_to_url env local_path url w =
     (case read_file (wfiles w) local_path of
        Inl e \<Rightarrow> (Inl e, w)
      | Inr content \<Rightarrow>
          (case push_error env url of
             Some e \<Rightarrow> (Inl e, w)
           | None \<Rightarrow> (Inr (), w\<lparr>wfiles := (wfiles w)(local_path := None),
                                 remote := (remote w)(url \<mapsto> content),
                                 remote_log := remote_log w @ [PushUrl url]\<rparr>)))"

text \<open>A step on the local file system, as a step on the world.\<close>

definition on_files :: "(fs \<Rightarrow> (exn + 'a) \<times> fs) \<Rightarrow> world \<Rightarrow> (exn + 'a) \<times> world" where
  "on_files step w = (case step (wfiles w) of (r, f) \<Rightarrow> (r, w\<lparr>wfiles := f\<rparr>))"

text \<open>Lines 324-328 and 341-345: the overwrite guard on a remote artifact.\<close>

definition overwrite_guard :: "publisher \<Rightarrow> bool \<Rightarrow> path \<Rightarrow> world \<Rightarrow> (exn + unit) \<times> world" where
  "overwrite_guard env force url w =
     (if url_exists w url
      then (if force then remove_url env url w
            else (Inl (NoOverwriteException (url_format (local_host env) url)), w))
      else (Inr (), w))"

text \<open>\<^verbatim>\<open>d[k] = v\<close> on a parsed document.\<close>

fun py_setitem :: "pyval \<Rightarrow> string \<Rightarrow> pyval \<Rightarrow> exn + pyval" where
  "py_setitem (PDict d) k v = Inr (PDict (AList.update k v d))"
| "py_setitem _ k v = Inl TypeError"

text \<open>
  \<^verbatim>\<open>write_buildinfo_file(prefix, workdir, rel)\<close>: the walk of lines 158-182 over the
  install tree is \<open>walk_classify\<close>, which gives the text files, the binaries and the
  links to relocate.
\<close>

definition write_buildinfo_file :: "host_env \<Rightarrow> path \<Rightarrow> path \<Rightarrow> bool \<Rightarrow> fs \<Rightarrow> fs" where
  "write_buildinfo_file env pfx workdir rel f =
     (case walk_classify env f pfx of
        (text_to_relocate, binary_to_relocate, link_to_relocate) \<Rightarrow>
          write_file (buildinfo_file_name workdir)
            (syaml_dump env (PDict
               [(''relative_rpaths'', PBool rel),
                (''buildpath'', PStr (layout_root env)),
                (''spackprefix'', PStr (spack_prefix env)),
                (''relative_prefix'', PStr (relpath env pfx (layout_root env))),
                (''relocate_textfiles'', PList (map PStr text_to_relocate)),
                (''relocate_binaries'', PList (map PStr binary_to_relocate)),
                (''relocate_links'', PList (map PStr link_to_relocate))])) f)"

text \<open>
  Lines 356-371: relocation of the copy; \<open>make_relative\<close> and \<open>make_placeholder\<close> are
  \<^verbatim>\<open>make_package_relative\<close> and \<^verbatim>\<open>make_package_placeholder\<close> with the primitives
  they call.
\<close>

definition relocate_copy ::
  "host_env \<Rightarrow> spec \<Rightarrow> bool \<Rightarrow> bool \<Rightarrow> path \<Rightarrow> path \<Rightarrow> path \<Rightarrow> fs \<Rightarrow> (exn + unit) \<times> fs" where
  "relocate_copy env s rel allow_root workdir tarfile_dir tmpdir f0 =
     (case (if rel then make_relative env workdir s allow_root f0
            else make_placeholder env workdir s allow_root f0) of
        (None, f) \<Rightarrow> (Inr (), f)
      | (Some e, f) \<Rightarrow>
          if is_exit e then (Inl e, f)
          else
            and_then (lift (rmtree workdir f) f) (\<lambda>_ f.
            and_then (lift (rmtree tarfile_dir f) f) (\<lambda>_ f.
            and_then (lift (rmtree tmpdir f) f) (\<lambda>_ f. (Inl (Die e), f)))))"

text \<open>The local paths of lines 312-318 and 333-336.\<close>

definition tarfile_dir_in :: "spec \<Rightarrow> path \<Rightarrow> path" where
  "tarfile_dir_in s tmpdir = path_join (build_cache_prefix tmpdir) (tarball_directory_name s)"

definition local_tarfile_path :: "spec \<Rightarrow> path \<Rightarrow> path" where
  "local_tarfile_path s tmpdir = path_join (tarfile_dir_in s tmpdir) (tarball_name s ''.tar.gz'')"

definition local_spackfile_path :: "spec \<Rightarrow> path \<Rightarrow> path" where
  "local_spackfile_path s tmpdir =
     path_join (build_cache_prefix tmpdir) (tarball_path_name s ''.spack'')"

definition local_specfile_path :: "host_env \<Rightarrow> spec \<Rightarrow> path \<Rightarrow> path" where
  "local_specfile_path env s tmpdir =
     realpath env (path_join (build_cache_prefix tmpdir) (tarball_name s ''.spec.yaml''))"

text \<open>The remote names of lines 320-321 and 338-339.\<close>

definition remote_spackfile_path :: "host_env \<Rightarrow> spec \<Rightarrow> path \<Rightarrow> path \<Rightarrow> path" where
  "remote_spackfile_path env s outdir tmpdir =
     url_join env outdir (relpath env (local_spackfile_path s tmpdir) tmpdir)"

definition remote_specfile_path :: "host_env \<Rightarrow> spec \<Rightarrow> path \<Rightarrow> path \<Rightarrow> path" where
  "remote_specfile_path env s outdir tmpdir =
     url_join env outdir (relpath env (local_specfile_path env s tmpdir) (realpath env tmpdir))"

text \<open>
  Lines 347-422: the copy of the install tree, the build info, the relocation, the
  tarball and its checksum, the metadata file, the signature and the \<^verbatim>\<open>.spack\<close>
  archive. All of it is on the local file system.
\<close>

definition package_local ::
  "host_env \<Rightarrow> spec \<Rightarrow> bool \<Rightarrow> bool \<Rightarrow> bool \<Rightarrow> bool \<Rightarrow> string option \<Rightarrow> path \<Rightarrow> fs \<Rightarrow>
   (exn + unit) \<times> fs" where
  "package_local env s force rel unsigned allow_root key tmpdir f0 =
     (let tarfile_name = tarball_name s ''.tar.gz'';
          tarfile_path = local_tarfile_path s tmpdir;
          specfile_name = tarball_name s ''.spec.yaml'';
          specfile_path = local_specfile_path env s tmpdir;
          spec_file = path_join (path_join (spec_prefix s) ''.spack'') ''spec.yaml'';
          tmp2 = mkdtemp env f0;
          workdir = path_join tmp2 (basename (spec_prefix s))
      in
      and_then (call (install_tree env (spec_prefix s) workdir) (f0(tmp2 \<mapsto> Dir))) (\<lambda>_ f.
      and_then (relocate_copy env s rel allow_root workdir (tarfile_dir_in s tmpdir) tmpdir
                  (write_buildinfo_file env (spec_prefix s) workdir rel f)) (\<lambda>_ f.
      and_then (lift (rmtree workdir
                        (write_file tarfile_path
                           (tar_of env f workdir (basename (spec_prefix s))) f))
                  (write_file tarfile_path
                     (tar_of env f workdir (basename (spec_prefix s))) f)) (\<lambda>_ f.
      and_then (pure (checksum_tarball env f tarfile_path) f) (\<lambda>checksum f.
      and_then (pure (read_file f spec_file) f) (\<lambda>content f.
      and_then (pure (ruamel_load env content) f) (\<lambda>spec_dict f.
      and_then (pure (py_setitem spec_dict ''binary_cache_checksum''
                        (PDict [(''hash_algorithm'', PStr ''sha256''),
                                (''hash'', PStr checksum)])) f) (\<lambda>d1 f.
      and_then (pure (py_setitem d1 ''buildinfo''
                        (PDict [(''relative_prefix'',
                                 PStr (relpath env (spec_prefix s) (layout_root env)))])) f)
        (\<lambda>d2 f.
      and_then (pure (py_setitem d2 ''full_hash'' (PStr (full_hash s))) f) (\<lambda>d3 f.
      and_then (if \<not> unsigned
                then sign_tarball env key force specfile_path
                       (write_file specfile_path (syaml_dump env d3) f)
                else (Inr (), write_file specfile_path (syaml_dump env d3) f)) (\<lambda>_ f.
      and_then (pure (read_file f tarfile_path) f) (\<lambda>tar_bytes f.
      and_then (pure (read_file f specfile_path) f) (\<lambda>spec_bytes f.
      and_then (if \<not> unsigned
                then pure (case read_file f (specfile_path @ ''.asc'') of
                             Inl e \<Rightarrow> Inl e
                           | Inr b \<Rightarrow> Inr [(specfile_name @ ''.asc'', b)]) f
                else (Inr [], f)) (\<lambda>asc_member f.
      and_then (lift (os_remove tarfile_path
                        (write_file (local_spackfile_path s tmpdir)
                           (mktar env ([(tarfile_name, tar_bytes), (specfile_name, spec_bytes)]
                                       @ asc_member)) f))
                  (write_file (local_spackfile_path s tmpdir)
                     (mktar env ([(tarfile_name, tar_bytes), (specfile_name, spec_bytes)]
                                 @ asc_member)) f)) (\<lambda>_ f.
      if \<not> unsigned then lift (os_remove (specfile_path @ ''.asc'') f) f
      else (Inr (), f))))))))))))))))"

text \<open>
  \<^verbatim>\<open>generate_package_index(cache_prefix)\<close>, with the page of the templates of lines
  39-52.
\<close>

definition index_entry :: "string \<Rightarrow> string" where
  "index_entry p = ''  <li><a href=\"'' @ p @ ''\">'' @ p @ ''</a></li>''"

fun join_lines :: "string list \<Rightarrow> string" where
  "join_lines [] = []"
| "join_lines [x] = x"
| "join_lines (x # y # ys) = x @ [CHR 0x0A] @ join_lines (y # ys)"

definition index_page :: "string list \<Rightarrow> string" where
  "index_page file_list =
     join_lines ['''', ''<html>'', ''<head>'', ''  <title>Spack Package Index</title>'',
                 ''</head>'', ''<body>'', ''<ul>'', join_lines (map index_entry file_list),
                 ''</ul>'', ''</body>'', ''</html>'', '''']"

definition finally_rmtree_world :: "path \<Rightarrow> (exn + 'a) \<times> world \<Rightarrow> (exn + 'a) \<times> world" where
  "finally_rmtree_world tmpdir r =
     (case r of (out, w) \<Rightarrow>
        (case rmtree tmpdir (wfiles w) of
           Inl e \<Rightarrow> (Inl e, w)
         | Inr f \<Rightarrow> (out, w\<lparr>wfiles := f\<rparr>)))"

definition generate_package_index :: "publisher \<Rightarrow> path \<Rightarrow> world \<Rightarrow> (exn + unit) \<times> world" where
  "generate_package_index env cache_prefix w0 =
     (let tmpdir = mkdtemp (local_host env) (wfiles w0);
          index_html_path = path_join tmpdir ''index.html''
      in finally_rmtree_world tmpdir
           (and_then (pure (list_url env (remote w0) cache_prefix)
                        (w0\<lparr>wfiles := (wfiles w0)(tmpdir \<mapsto> Dir)\<rparr>)) (\<lambda>entries w.
            push_to_url env index_html_path
              (url_join (local_host env) cache_prefix ''index.html'')
              (w\<lparr>wfiles := write_file index_html_path
                   (index_page (filter (\<lambda>e. suffix ''.yaml'' e \<or> suffix ''.key'' e) entries))
                   (wfiles w)\<rparr>))))"

text \<open>
  Lines 347-438: after the overwrite guards, the archive is made locally, then
  published with the metadata file, then the index is regenerated if asked for.
\<close>

definition package_and_publish ::
  "publisher \<Rightarrow> spec \<Rightarrow> path \<Rightarrow> bool \<Rightarrow> bool \<Rightarrow> bool \<Rightarrow> bool \<Rightarrow> string option \<Rightarrow> bool \<Rightarrow>
   path \<Rightarrow> world \<Rightarrow> (exn + unit) \<times> world" where
  "package_and_publish env s outdir force rel unsigned allow_root key regenerate_index tmpdir w0 =
     (let lh = local_host env in
      and_then (on_files (package_local lh s force rel unsigned allow_root key tmpdir) w0)
        (\<lambda>_ w.
      and_then (push_to_url env (local_spackfile_path s tmpdir)
                  (remote_spackfile_path lh s outdir tmpdir) w) (\<lambda>_ w.
      and_then (push_to_url env (local_specfile_path lh s tmpdir)
                  (remote_specfile_path lh s outdir tmpdir) w) (\<lambda>_ w.
      finally_rmtree_world tmpdir
        (if regenerate_index
         then generate_package_index env
                (url_join lh outdir (relpath lh (build_cache_prefix tmpdir) tmpdir)) w
         else (Inr (), w))))))"

text \<open>
  \<^verbatim>\<open>build_tarball(spec, outdir, force, rel, unsigned, allow_root, key,
  regenerate_index)\<close>.
\<close>

definition build_tarball ::
  "publisher \<Rightarrow> spec \<Rightarrow> path \<Rightarrow> bool \<Rightarrow> bool \<Rightarrow> bool \<Rightarrow> bool \<Rightarrow> string option \<Rightarrow> bool \<Rightarrow>
   world \<Rightarrow> (exn + unit) \<times> world" where
  "build_tarball env s outdir force rel unsigned allow_root key regenerate_index w0 =
     (if \<not> concrete s then (Inl (ValueError ''spec must be concrete to build tarball''), w0)
      else
        let lh = local_host env;
            tmpdir = mkdtemp lh (wfiles w0)
        in
        and_then (overwrite_guard env force (remote_spackfile_path lh s outdir tmpdir)
                    (w0\<lparr>wfiles := (wfiles w0)(tmpdir \<mapsto> Dir, tarfile_dir_in s tmpdir \<mapsto> Dir)\<rparr>))
          (\<lambda>_ w.
        and_then (overwrite_guard env force (remote_specfile_path lh s outdir tmpdir) w)
          (\<lambda>_. package_and_publish env s outdir force rel unsigned allow_root key
                  regenerate_index tmpdir)))"

text \<open>
  For the statement of the overwrite policy: the two remote names of a call, the
  removals a forced call makes for what the mirror holds under them, and the operations
  that publish.
\<close>

definition remote_archive :: "publisher \<Rightarrow> spec \<Rightarrow> path \<Rightarrow> world \<Rightarrow> path" where
  "remote_archive env s outdir w =
     remote_spackfile_path (local_host env) s outdir (mkdtemp (local_host env) (wfiles w))"

definition remote_metadata :: "publisher \<Rightarrow> spec \<Rightarrow> path \<Rightarrow> world \<Rightarrow> path" where
  "remote_metadata env s outdir w =
     remote_specfile_path (local_host env) s outdir (mkdtemp (local_host env) (wfiles w))"

definition removals :: "world \<Rightarrow> path \<Rightarrow> path \<Rightarrow> remote_op list" where
  "removals w a b =
     (if url_exists w a then [RemoveUrl a] else []) @
     (if url_exists w b \<and> b \<noteq> a then [RemoveUrl b] else [])"

fun is_push :: "remote_op \<Rightarrow> bool" where
  "is_push (PushUrl u) = True"
| "is_push (RemoveUrl u) = False"

section \<open>Concrete inputs\<close>

text \<open>A spec, two mirrors and what they serve, used to run the definitions.\<close>

definition zlib :: spec where
  "zlib = \<lparr>concrete = True, name = ''zlib'', version = ''1.2.11'',
     architecture = ''linux-x86_64'', platform = ''linux'', compiler = ''gcc@9.1'',
     dag_hash = ''abcdefg'', full_hash = ''h1'', short_spec = ''zlib@1.2.11'',
     spec_prefix = ''/opt/zlib''\<rparr>"

definition mirror_env :: net_env where
  "mirror_env = \<lparr>
     read_from_url = (\<lambda>p.
        if p = ''/m1/build_cache/linux-x86_64-gcc-9.1-zlib-1.2.11-abcdefg.spec.yaml''
        then Inr ''full_hash: h1''
        else if p = ''/m2/build_cache/linux-x86_64-gcc-9.1-zlib-1.2.11-abcdefg.spec.yaml''
        then Inr ''full_hash: h0''
        else Inl (URLError ''not found'')),
     yaml_load = (\<lambda>c.
        if c = ''full_hash: h1'' then Inr (PDict [(''full_hash'', PStr ''h1'')])
        else if c = ''full_hash: h0'' then Inr (PDict [(''full_hash'', PStr ''h0'')])
        else Inl (OtherError ''yaml''))\<rparr>"

definition mirrors3 :: "mirror list" where
  "mirrors3 = [\<lparr>mirror_name = ''one'', fetch_url = ''/m1''\<rparr>,
               \<lparr>mirror_name = ''three'', fetch_url = ''/m3''\<rparr>]"

text \<open>
  A host. Archives are named by their content: the bundles \<open>signed\<close>, \<open>nosig\<close>,
  \<open>forged\<close>, \<open>tampered\<close>, \<open>moved\<close> and \<open>plain\<close> hold the payload \<open>payload\<close>
  (or a tampered one) and a metadata file. The bundles \<open>escaping\<close> and
  \<open>escaping-moved\<close> hold two more members, named by absolute paths at the install
  prefix. The digest of \<open>b\<close> is \<open>sha:b\<close>, the good signature of \<open>c\<close> is
  \<open>sig:c\<close>, made with the key \<open>K1\<close>.
\<close>

definition tgz :: string where
  "tgz = ''linux-x86_64-gcc-9.1-zlib-1.2.11-abcdefg.tar.gz''"

definition yml :: string where
  "yml = ''linux-x86_64-gcc-9.1-zlib-1.2.11-abcdefg.spec.yaml''"

definition asc :: string where
  "asc = ''linux-x86_64-gcc-9.1-zlib-1.2.11-abcdefg.spec.yaml.asc''"

definition spackfile :: path where
  "spackfile = ''/stage/linux-x86_64-gcc-9.1-zlib-1.2.11-abcdefg.spack''"

definition members_of :: "string \<Rightarrow> (path \<times> node) list option" where
  "members_of b =
     (if b = ''signed'' then
        Some [(tgz, File ''payload''), (yml, File ''meta''), (asc, File ''sig:meta'')]
      else if b = ''nosig'' then
        Some [(tgz, File ''payload''), (yml, File ''meta'')]
      else if b = ''forged'' then
        Some [(tgz, File ''payload''), (yml, File ''meta''), (asc, File ''forged'')]
      else if b = ''tampered'' then
        Some [(tgz, File ''tampered''), (yml, File ''meta'')]
      else if b = ''moved'' then
        Some [(tgz, File ''payload''), (yml, File ''meta-moved'')]
      else if b = ''plain'' then
        Some [(tgz, File ''payload''), (yml, File ''meta-plain'')]
      else if b = ''escaping'' then
        Some [(tgz, File ''tampered''), (yml, File ''meta''),
              (''/opt/zlib'', Dir), (''/opt/zlib/libz.so'', File ''planted'')]
      else if b = ''escaping-moved'' then
        Some [(tgz, File ''payload''), (yml, File ''meta-moved''),
              (''/opt/zlib'', Dir), (''/opt/zlib/libz.so'', File ''planted'')]
      else if b = ''payload'' then
        Some [(''zlib'', Dir), (''zlib/libz.so'', File ''elf''),
              (''zlib/.spack'', Dir), (''zlib/.spack/binary_distribution'', File ''bi'')]
      else None)"

definition metadata_of :: "string \<Rightarrow> exn + pyval" where
  "metadata_of c =
     (let sum = (''binary_cache_checksum'',
                 PDict [(''hash_algorithm'', PStr ''sha256''), (''hash'', PStr ''sha:payload'')])
      in if c = ''meta'' then
           Inr (PDict [sum, (''buildinfo'', PDict [(''relative_prefix'', PStr ''zlib'')]),
                       (''full_hash'', PStr ''h1'')])
         else if c = ''meta-moved'' then
           Inr (PDict [sum, (''buildinfo'', PDict [(''relative_prefix'', PStr ''old/zlib'')]),
                       (''full_hash'', PStr ''h1'')])
         else if c = ''meta-plain'' then
           Inr (PDict [sum, (''full_hash'', PStr ''h1'')])
         else if c = ''bi'' then
           Inr (PDict [(''buildpath'', PStr ''/old''), (''relative_rpaths'', PBool False),
                       (''relocate_textfiles'', PList []),
                       (''relocate_binaries'', PList [PStr ''libz.so'']),
                       (''relocate_links'', PList [])])
         else Inl (OtherError ''yaml''))"

text \<open>A tree copy for \<open>install_tree\<close>: what is below \<open>src\<close> appears below \<open>dst\<close>.\<close>

definition copy_tree :: "path \<Rightarrow> path \<Rightarrow> fs \<Rightarrow> exn option \<times> fs" where
  "copy_tree src dst f =
     (case f src of
        Some Dir \<Rightarrow>
          (None, \<lambda>q. if q = dst then Some Dir
                      else if prefix (dst @ ''/'') q
                      then (case f (src @ drop (length dst) q) of
                              Some n \<Rightarrow> Some n
                            | None \<Rightarrow> f q)
                      else f q)
      | _ \<Rightarrow> (Some (OtherError ''install_tree''), f))"

definition host :: host_env where
  "host = \<lparr>
     has_gnupg2 = True,
     signing_keys = [''K1''],
     gpg_sign = (\<lambda>k c. if k = ''K1'' then Inr (''sig:'' @ c)
                        else Inr (''sig['' @ k @ '']:'' @ c)),
     gpg_verify = (\<lambda>sg c. if sg = ''sig:'' @ c then None
                            else Some (OtherError ''BAD signature'')),
     sha_init = [],
     sha_update = (\<lambda>h b. h @ b),
     sha_hexdigest = (\<lambda>h. ''sha:'' @ h),
     untar = members_of,
     tar_of = (\<lambda>f p a. ''payload''),
     mktar = (\<lambda>ms. if map_of ms asc = None then ''nosig'' else ''signed''),
     syaml_load = metadata_of,
     ruamel_load = metadata_of,
     syaml_dump = (\<lambda>v. ''meta''),
     mkdtemp = (\<lambda>f. if f ''/tmp/t'' = None then ''/tmp/t'' else ''/tmp/u''),
     layout_root = ''/opt'',
     metadata_dir = ''.spack'',
     manifest_file_name = ''install_manifest.json'',
     spack_prefix = ''/spack'',
     relpath = (\<lambda>p start. drop (length start + 1) p),
     realpath = (\<lambda>p. p),
     url_join = (\<lambda>a b. a @ ''/'' @ b),
     url_format = (\<lambda>u. u),
     install_tree = copy_tree,
     relocate_text = (\<lambda>ps old new oldp newp f. (None, f)),
     relocate_macho_binaries = (\<lambda>ps old new ar f. (None, f)),
     relocate_elf_binaries = (\<lambda>ps old new ar f. (None, f)),
     relocate_links = (\<lambda>ps old new f. (None, f)),
     make_relative = (\<lambda>w s ar f. (None, f)),
     make_placeholder = (\<lambda>w s ar f. (None, f)),
     walk_classify = (\<lambda>f p. ([], [''libz.so''], []))\<rparr>"

text \<open>A host on which the ELF relocation fails half way.\<close>

definition failing_host :: host_env where
  "failing_host = host\<lparr>relocate_elf_binaries :=
     (\<lambda>ps old new ar f. (Some (OtherError ''patchelf''),
                           f(''/opt/zlib/libz.so'' \<mapsto> File ''half'')))\<rparr>"

text \<open>
  File systems: the stage directory with a downloaded bundle, and the same with an
  earlier installation at the install prefix.
\<close>

definition stage :: "string \<Rightarrow> fs" where
  "stage b =
     (\<lambda>p. if p = ''/stage'' then Some Dir
           else if p = spackfile then Some (File b)
           else None)"

definition installed :: "string \<Rightarrow> fs" where
  "installed b =
     (\<lambda>p. if p = ''/opt/zlib'' then Some Dir
           else if p = ''/opt/zlib/libz.so'' then Some (File ''v0'')
           else stage b p)"

text \<open>The temporary directory after the bundle \<open>b\<close> is unpacked into it.\<close>

definition unpacked :: "fs \<Rightarrow> (path \<times> node) list \<Rightarrow> fs" where
  "unpacked f ms = snd (extractall ''/tmp/t'' ms (f(''/tmp/t'' \<mapsto> Dir)))"

text \<open>The payload of the example bundles and the state after it is installed.\<close>

definition payload_members :: "(path \<times> node) list" where
  "payload_members = [(''zlib'', Dir), (''zlib/libz.so'', File ''elf''),
              (''zlib/.spack'', Dir), (''zlib/.spack/binary_distribution'', File ''bi'')]"

definition installed_from :: "fs \<Rightarrow> fs" where
  "installed_from f1 =
     ((snd (copy_tree ''/tmp/t/zlib'' ''/opt/zlib''
              (snd (extractall ''/tmp/t'' payload_members f1))))
        (''/tmp/t/'' @ tgz := None))(''/tmp/t/'' @ yml := None)"

text \<open>A work directory with a metadata file to sign.\<close>

definition workfs :: fs where
  "workfs = (\<lambda>p. if p = ''/w/s.yaml'' then Some (File ''meta'') else None)"

text \<open>
  A remote mirror whose index has no link at first, and the same mirror after a
  \<^verbatim>\<open>spec.yaml\<close> file is published there; a process that has not called
  \<^verbatim>\<open>get_specs\<close> yet.
\<close>

definition quiet_mirror :: mirrors_env where
  "quiet_mirror = \<lparr>
     mirror_collection = [\<lparr>mirror_name = ''m'', fetch_url = ''http://m''\<rparr>],
     local_file_path = (\<lambda>u. None),
     mirror_url_join = (\<lambda>a b. a @ ''/'' @ b),
     listdir = (\<lambda>d. None),
     spider = (\<lambda>u. Inr []),
     save_filename = (\<lambda>l. ''/stage/z''),
     stage_fetch = (\<lambda>l. Inr ''zlib-yaml''),
     from_yaml = (\<lambda>c. if c = ''zlib-yaml'' then Inr zlib else Inl (OtherError ''yaml''))\<rparr>"

definition serving_mirror :: mirrors_env where
  "serving_mirror = quiet_mirror\<lparr>spider := (\<lambda>u. Inr [''http://m/build_cache/z.spec.yaml''])\<rparr>"

definition fresh_process :: process where
  "fresh_process = \<lparr>cached_specs = None, disk = (\<lambda>p. None), queries = []\<rparr>"

text \<open>
  A publisher on the host whose transfers succeed, the install tree of the spec, and a
  mirror at \<open>/mirror\<close> that holds an earlier archive of it.
\<close>

definition pub :: publisher where
  "pub = \<lparr>local_host = host, push_error = (\<lambda>u. None), remove_error = (\<lambda>u. None),
          list_url = (\<lambda>r c. Inr [])\<rparr>"

definition built :: fs where
  "built =
     (\<lambda>p. if p = ''/opt/zlib'' then Some Dir
           else if p = ''/opt/zlib/libz.so'' then Some (File ''elf'')
           else if p = ''/opt/zlib/.spack/spec.yaml'' then Some (File ''meta-plain'')
           else None)"

definition old_archive :: path where
  "old_archive =
     ''/mirror/build_cache/linux-x86_64/gcc-9.1/zlib-1.2.11/linux-x86_64-gcc-9.1-zlib-1.2.11-abcdefg.spack''"

definition new_metadata :: path where
  "new_metadata = ''/mirror/build_cache/linux-x86_64-gcc-9.1-zlib-1.2.11-abcdefg.spec.yaml''"

definition mirror_with_old :: world where
  "mirror_with_old =
     \<lparr>wfiles = built,
      remote = (\<lambda>u. if u = old_archive then Some ''old'' else None),
      remote_log = []\<rparr>"

section \<open>Properties\<close>

subsection \<open>The rebuild decision\<close>

lemma compare_full_hash_dict:
  "compare_full_hash s (PDict d) =
     (case map_of d ''full_hash'' of
        None \<Rightarrow> Inr (True, [Rebuilding (short_spec s) FullHashMissing])
      | Some v \<Rightarrow>
          if v = PStr (full_hash s) then Inr (False, [])
          else Inr (True, [Rebuilding (short_spec s) (HashMismatch v (full_hash s))]))"
  by (auto simp: compare_full_hash_def split: option.splits)

lemma zlib_fields:
  "concrete zlib" "name zlib = ''zlib''" "version zlib = ''1.2.11''"
  "dag_hash zlib = ''abcdefg''" "full_hash zlib = ''h1''" "short_spec zlib = ''zlib@1.2.11''"
  "spec_prefix zlib = ''/opt/zlib''" "platform zlib = ''linux''"
  by (simp_all add: zlib_def)

lemma zlib_yaml_path:
  "spec_yaml_path zlib ''/m1'' =
     ''/m1/build_cache/linux-x86_64-gcc-9.1-zlib-1.2.11-abcdefg.spec.yaml''"
  "spec_yaml_path zlib ''/m2'' =
     ''/m2/build_cache/linux-x86_64-gcc-9.1-zlib-1.2.11-abcdefg.spec.yaml''"
  "spec_yaml_path zlib ''/m3'' =
     ''/m3/build_cache/linux-x86_64-gcc-9.1-zlib-1.2.11-abcdefg.spec.yaml''"
  by (simp_all add: spec_yaml_path_def build_cache_prefix_def build_cache_relative_path_def
      path_join_def tarball_name_def replace_at_def zlib_def)

text \<open>
  C1. For a concrete spec and a mirror URL, \<^verbatim>\<open>needs_rebuild\<close> returns its argument
  \<^verbatim>\<open>rebuild_on_errors\<close> when reading the remote \<^verbatim>\<open>.spec.yaml\<close> raises \<^verbatim>\<open>URLError\<close>
  and when the text read is empty. When the text parses to a mapping, it returns true
  with the reason "full_hash was missing" if the key \<^verbatim>\<open>full_hash\<close> is absent, true
  with the reason "hash mismatch" if its value differs from \<^verbatim>\<open>spec.full_hash()\<close>, and
  it returns false exactly when the recorded value equals the local full hash.
\<close>

theorem needs_rebuild_decision:
  assumes "concrete s"
  shows
    "(read_from_url env (spec_yaml_path s url) = Inl (URLError r) \<longrightarrow>
        needs_rebuild env s url roe =
          Inr (roe, [DebugChecking (name s) (version s) (dag_hash s) (full_hash s),
                     UnableToDetermine (short_spec s) (spec_yaml_path s url),
                     ResultOfError (short_spec s) roe])) \<and>
     (read_from_url env (spec_yaml_path s url) = Inr [] \<longrightarrow>
        needs_rebuild env s url roe =
          Inr (roe, [DebugChecking (name s) (version s) (dag_hash s) (full_hash s),
                     ReturnedNothing (spec_yaml_path s url),
                     ResultOfError (short_spec s) roe])) \<and>
     (read_from_url env (spec_yaml_path s url) = Inr c \<and> c \<noteq> [] \<and>
      yaml_load env c = Inr (PDict d) \<longrightarrow>
        (map_of d ''full_hash'' = None \<longrightarrow>
           needs_rebuild env s url roe =
             Inr (True, [DebugChecking (name s) (version s) (dag_hash s) (full_hash s),
                         Rebuilding (short_spec s) FullHashMissing])) \<and>
        (map_of d ''full_hash'' = Some v \<and> v \<noteq> PStr (full_hash s) \<longrightarrow>
           needs_rebuild env s url roe =
             Inr (True, [DebugChecking (name s) (version s) (dag_hash s) (full_hash s),
                         Rebuilding (short_spec s) (HashMismatch v (full_hash s))])) \<and>
        (map_of d ''full_hash'' = Some (PStr (full_hash s)) \<longrightarrow>
           needs_rebuild env s url roe =
             Inr (False, [DebugChecking (name s) (version s) (dag_hash s) (full_hash s)])) \<and>
        ((\<exists>l. needs_rebuild env s url roe = Inr (False, l)) \<longleftrightarrow>
           map_of d ''full_hash'' = Some (PStr (full_hash s))))"
  using assms
  by (auto simp: needs_rebuild_def is_URLError_def logged_def compare_full_hash_dict
           split: option.splits)

theorem needs_rebuild_decision_witness:
  "concrete zlib \<and>
   needs_rebuild mirror_env zlib ''/m3'' True =
     Inr (True, [DebugChecking ''zlib'' ''1.2.11'' ''abcdefg'' ''h1'',
                 UnableToDetermine ''zlib@1.2.11''
                   ''/m3/build_cache/linux-x86_64-gcc-9.1-zlib-1.2.11-abcdefg.spec.yaml'',
                 ResultOfError ''zlib@1.2.11'' True]) \<and>
   needs_rebuild mirror_env zlib ''/m2'' False =
     Inr (True, [DebugChecking ''zlib'' ''1.2.11'' ''abcdefg'' ''h1'',
                 Rebuilding ''zlib@1.2.11'' (HashMismatch (PStr ''h0'') ''h1'')]) \<and>
   needs_rebuild mirror_env zlib ''/m1'' False =
     Inr (False, [DebugChecking ''zlib'' ''1.2.11'' ''abcdefg'' ''h1''])"
proof -
  note c = zlib_fields(1)
  have "needs_rebuild mirror_env zlib ''/m3'' True =
     Inr (True, [DebugChecking ''zlib'' ''1.2.11'' ''abcdefg'' ''h1'',
                 UnableToDetermine ''zlib@1.2.11''
                   ''/m3/build_cache/linux-x86_64-gcc-9.1-zlib-1.2.11-abcdefg.spec.yaml'',
                 ResultOfError ''zlib@1.2.11'' True])"
    using needs_rebuild_decision [OF c, of mirror_env "''/m3''" "''not found''" True]
    by (simp add: zlib_yaml_path zlib_fields mirror_env_def)
  moreover have "needs_rebuild mirror_env zlib ''/m2'' False =
     Inr (True, [DebugChecking ''zlib'' ''1.2.11'' ''abcdefg'' ''h1'',
                 Rebuilding ''zlib@1.2.11'' (HashMismatch (PStr ''h0'') ''h1'')])"
    using needs_rebuild_decision [OF c, of mirror_env "''/m2''" _ _ "''full_hash: h0''"
        "[(''full_hash'', PStr ''h0'')]" "PStr ''h0''"]
    by (simp add: zlib_yaml_path zlib_fields mirror_env_def)
  moreover have "needs_rebuild mirror_env zlib ''/m1'' False =
     Inr (False, [DebugChecking ''zlib'' ''1.2.11'' ''abcdefg'' ''h1''])"
    using needs_rebuild_decision [OF c, of mirror_env "''/m1''" _ _ "''full_hash: h1''"
        "[(''full_hash'', PStr ''h1'')]"]
    by (simp add: zlib_yaml_path zlib_fields mirror_env_def)
  ultimately show ?thesis using c by simp
qed

subsection \<open>Checking specs against mirrors\<close>

lemma rebuild_list_of_ok:
  "\<forall>s\<in>set specs. \<not> isl (needs_rebuild env s url roe) \<Longrightarrow>
   rebuild_list_of env url roe specs =
     Inr (stale_entries env roe url specs, concat (map (messages_of env roe url) specs))"
proof (induction specs)
  case Nil
  then show ?case by (simp add: stale_entries_def)
next
  case (Cons s ss)
  then obtain b l where nr: "needs_rebuild env s url roe = Inr (b, l)"
    by (cases "needs_rebuild env s url roe") auto
  with Cons show ?case
    by (simp add: stale_entries_def stale_def messages_of_def)
qed

lemma stale_entries_empty:
  "stale_entries env roe url specs = [] \<longleftrightarrow> (\<forall>s\<in>set specs. \<not> stale env roe url s)"
  by (auto simp: stale_entries_def filter_empty_conv)

lemma check_mirrors_ok:
  "\<forall>m\<in>set ms. \<forall>s\<in>set specs. \<not> isl (needs_rebuild env s (fetch_url m) roe) \<Longrightarrow>
   \<exists>rb. check_mirrors env roe specs ms acc =
           Inr (rb, concat (map (mirror_messages env roe specs) ms)) \<and>
        (\<forall>url. map_of rb url =
           (if reporting env roe specs url ms = [] then map_of acc url
            else Some \<lparr>mirrorName = mirror_name (last (reporting env roe specs url ms)),
                       mirrorUrl = url,
                       rebuildSpecs = stale_entries env roe url specs\<rparr>))"
proof (induction ms arbitrary: acc)
  case Nil
  then show ?case by (simp add: reporting_def)
next
  case (Cons m ms)
  let ?acc' = "if stale_entries env roe (fetch_url m) specs \<noteq> []
                then AList.update (fetch_url m)
                       \<lparr>mirrorName = mirror_name m, mirrorUrl = fetch_url m,
                        rebuildSpecs = stale_entries env roe (fetch_url m) specs\<rparr> acc
                else acc"
  from Cons.prems have rl: "rebuild_list_of env (fetch_url m) roe specs =
     Inr (stale_entries env roe (fetch_url m) specs,
          concat (map (messages_of env roe (fetch_url m)) specs))"
    by (intro rebuild_list_of_ok) simp
  from Cons.prems have "\<forall>m\<in>set ms. \<forall>s\<in>set specs. \<not> isl (needs_rebuild env s (fetch_url m) roe)"
    by simp
  from Cons.IH [OF this, of ?acc'] obtain rb where
    rb: "check_mirrors env roe specs ms ?acc' =
           Inr (rb, concat (map (mirror_messages env roe specs) ms))"
    and mp: "\<And>url. map_of rb url =
           (if reporting env roe specs url ms = [] then map_of ?acc' url
            else Some \<lparr>mirrorName = mirror_name (last (reporting env roe specs url ms)),
                       mirrorUrl = url,
                       rebuildSpecs = stale_entries env roe url specs\<rparr>)"
    by blast
  have "check_mirrors env roe specs (m # ms) acc =
          Inr (rb, concat (map (mirror_messages env roe specs) (m # ms)))"
    using rl rb by (simp add: logged_def mirror_messages_def)
  moreover have "map_of rb url =
           (if reporting env roe specs url (m # ms) = [] then map_of acc url
            else Some \<lparr>mirrorName = mirror_name (last (reporting env roe specs url (m # ms))),
                       mirrorUrl = url,
                       rebuildSpecs = stale_entries env roe url specs\<rparr>)" for url
    unfolding mp [of url]
    by (auto simp: reporting_def update_conv')
  ultimately show ?case by blast
qed


text \<open>
  C8. For every list of mirrors and of specs on which each call of \<^verbatim>\<open>needs_rebuild\<close>
  returns, \<^verbatim>\<open>check_specs_against_mirrors\<close> runs \<^verbatim>\<open>needs_rebuild\<close> on every pair of
  a mirror and a spec (what it prints is what the calls print, in order), the report has
  an entry under a mirror's URL exactly when one of the specs needs a rebuild there, the
  entry lists the short spec and the DAG hash of each such spec, and the returned value
  is 1 when some spec needs a rebuild at some mirror and 0 otherwise.
\<close>

theorem check_specs_against_mirrors_report:
  assumes "\<forall>m\<in>set mirrors. \<forall>s\<in>set specs. \<not> isl (needs_rebuild env s (fetch_url m) roe)"
  shows "\<exists>res. check_specs_against_mirrors env mirrors specs out roe = Inr res \<and>
     printed res = concat (map (mirror_messages env roe specs) mirrors) \<and>
     (\<forall>url. url \<in> fst ` set (rebuilds res) \<longleftrightarrow>
        (\<exists>m\<in>set mirrors. fetch_url m = url \<and> (\<exists>s\<in>set specs. stale env roe url s))) \<and>
     (\<forall>url rep. map_of (rebuilds res) url = Some rep \<longrightarrow>
        mirrorUrl rep = url \<and> rebuildSpecs rep = stale_entries env roe url specs \<and>
        (\<exists>m\<in>set mirrors. fetch_url m = url \<and> mirrorName rep = mirror_name m)) \<and>
     returned res =
       (if \<exists>m\<in>set mirrors. \<exists>s\<in>set specs. stale env roe (fetch_url m) s then 1 else 0)"
proof -
  from check_mirrors_ok [OF assms, of "[]"] obtain rb where
    rb: "check_mirrors env roe specs mirrors [] =
           Inr (rb, concat (map (mirror_messages env roe specs) mirrors))"
    and mp: "\<And>url. map_of rb url =
           (if reporting env roe specs url mirrors = [] then None
            else Some \<lparr>mirrorName = mirror_name (last (reporting env roe specs url mirrors)),
                       mirrorUrl = url,
                       rebuildSpecs = stale_entries env roe url specs\<rparr>)"
    by auto
  let ?res = "\<lparr>returned = (if rb \<noteq> [] then 1 else 0), rebuilds = rb,
      written = (case out of None \<Rightarrow> None | Some f \<Rightarrow> if f \<noteq> [] then Some (f, rb) else None),
      printed = concat (map (mirror_messages env roe specs) mirrors)\<rparr>"
  have res: "check_specs_against_mirrors env mirrors specs out roe = Inr ?res"
    by (simp add: check_specs_against_mirrors_def rb)
  have rep_iff: "reporting env roe specs url mirrors \<noteq> [] \<longleftrightarrow>
      (\<exists>m\<in>set mirrors. fetch_url m = url \<and> (\<exists>s\<in>set specs. stale env roe url s))" for url
    by (auto simp: reporting_def filter_empty_conv stale_entries_empty)
  have dom: "url \<in> fst ` set rb \<longleftrightarrow>
      (\<exists>m\<in>set mirrors. fetch_url m = url \<and> (\<exists>s\<in>set specs. stale env roe url s))" for url
  proof -
    have "url \<in> fst ` set rb \<longleftrightarrow> map_of rb url \<noteq> None"
      by (simp add: map_of_eq_None_iff)
    also have "\<dots> \<longleftrightarrow> reporting env roe specs url mirrors \<noteq> []"
      by (simp add: mp)
    finally show ?thesis by (simp add: rep_iff)
  qed
  have entry: "mirrorUrl rep = url \<and> rebuildSpecs rep = stale_entries env roe url specs \<and>
        (\<exists>m\<in>set mirrors. fetch_url m = url \<and> mirrorName rep = mirror_name m)"
    if "map_of rb url = Some rep" for url rep
  proof -
    from that mp [of url] have ne: "reporting env roe specs url mirrors \<noteq> []"
      and rep: "rep = \<lparr>mirrorName = mirror_name (last (reporting env roe specs url mirrors)),
                       mirrorUrl = url, rebuildSpecs = stale_entries env roe url specs\<rparr>"
      by (auto split: if_splits)
    define xs where "xs = reporting env roe specs url mirrors"
    have sub: "set xs \<subseteq> {m \<in> set mirrors. fetch_url m = url}"
      by (auto simp: xs_def reporting_def)
    from ne have "last xs \<in> set xs"
      unfolding xs_def by (rule last_in_set)
    with sub have "last xs \<in> set mirrors" "fetch_url (last xs) = url"
      by auto
    with rep show ?thesis unfolding xs_def by auto
  qed
  have ret: "rb \<noteq> [] \<longleftrightarrow> (\<exists>m\<in>set mirrors. \<exists>s\<in>set specs. stale env roe (fetch_url m) s)"
  proof -
    have "rb \<noteq> [] \<longleftrightarrow> (\<exists>url. url \<in> fst ` set rb)"
      by (cases rb) auto
    then show ?thesis unfolding dom by blast
  qed
  show ?thesis
    using res dom entry ret by (intro exI [of _ ?res]) simp
qed


lemma needs_rebuild_zlib:
  "needs_rebuild mirror_env zlib ''/m1'' roe =
     Inr (False, [DebugChecking ''zlib'' ''1.2.11'' ''abcdefg'' ''h1''])"
  "needs_rebuild mirror_env zlib ''/m3'' roe =
     Inr (roe, [DebugChecking ''zlib'' ''1.2.11'' ''abcdefg'' ''h1'',
                 UnableToDetermine ''zlib@1.2.11''
                   ''/m3/build_cache/linux-x86_64-gcc-9.1-zlib-1.2.11-abcdefg.spec.yaml'',
                 ResultOfError ''zlib@1.2.11'' roe])"
  by (simp_all add: needs_rebuild_def zlib_yaml_path zlib_fields mirror_env_def
      is_URLError_def logged_def compare_full_hash_dict)

theorem check_specs_against_mirrors_report_witness:
  "\<exists>res. check_specs_against_mirrors mirror_env mirrors3 [zlib] None True = Inr res \<and>
     returned res = 1 \<and>
     ''/m3'' \<in> fst ` set (rebuilds res) \<and>
     ''/m1'' \<notin> fst ` set (rebuilds res) \<and>
     (\<exists>rep. map_of (rebuilds res) ''/m3'' = Some rep \<and>
        rebuildSpecs rep = [\<lparr>rs_short_spec = ''zlib@1.2.11'', rs_hash = ''abcdefg''\<rparr>])"
proof -
  have st: "stale mirror_env True ''/m3'' zlib" "\<not> stale mirror_env True ''/m1'' zlib"
    by (simp_all add: stale_def needs_rebuild_zlib)
  have hyp: "\<forall>m\<in>set mirrors3. \<forall>s\<in>set [zlib].
     \<not> isl (needs_rebuild mirror_env s (fetch_url m) True)"
    by (simp add: mirrors3_def needs_rebuild_zlib)
  from check_specs_against_mirrors_report [OF hyp, of None] obtain res where
    res: "check_specs_against_mirrors mirror_env mirrors3 [zlib] None True = Inr res"
    and dom: "\<And>url. url \<in> fst ` set (rebuilds res) \<longleftrightarrow>
        (\<exists>m\<in>set mirrors3. fetch_url m = url \<and> (\<exists>s\<in>set [zlib]. stale mirror_env True url s))"
    and ent: "\<And>url rep. map_of (rebuilds res) url = Some rep \<Longrightarrow>
        rebuildSpecs rep = stale_entries mirror_env True url [zlib]"
    and ret: "returned res =
       (if \<exists>m\<in>set mirrors3. \<exists>s\<in>set [zlib]. stale mirror_env True (fetch_url m) s
        then 1 else 0)"
    by blast
  have r1: "returned res = 1"
    unfolding ret by (simp add: mirrors3_def st)
  have d3: "''/m3'' \<in> fst ` set (rebuilds res)"
    unfolding dom by (simp add: mirrors3_def st)
  have d1: "''/m1'' \<notin> fst ` set (rebuilds res)"
    unfolding dom by (simp add: mirrors3_def st)
  from d3 obtain rep where rep: "map_of (rebuilds res) ''/m3'' = Some rep"
    by (cases "map_of (rebuilds res) ''/m3''") (auto simp: map_of_eq_None_iff)
  from ent [OF rep] have "rebuildSpecs rep = [\<lparr>rs_short_spec = ''zlib@1.2.11'', rs_hash = ''abcdefg''\<rparr>]"
    by (simp add: stale_entries_def st rebuild_entry_def zlib_fields)
  with res r1 d3 d1 rep show ?thesis by blast
qed

subsection \<open>Installing from an archive\<close>

lemma and_then_Inr [simp]: "and_then (Inr a, f) k = k a f"
  by (simp add: and_then_def)

lemma and_then_Inl [simp]: "and_then (Inl e, f) k = (Inl e, f)"
  by (simp add: and_then_def)

lemma split_path_no_slash: "c \<in> set (split_path n) \<Longrightarrow> CHR ''/'' \<notin> set c"
proof (induction n arbitrary: c)
  case Nil
  then show ?case by simp
next
  case (Cons a n)
  then show ?case
    by (cases "split_path n") (auto split: if_splits)
qed

lemma under_refl: "under d d"
  by (simp add: under_def)

lemma under_extend: "under d cur \<Longrightarrow> under d (cur @ ''/'' @ c)"
  by (auto simp: under_def prefix_def)

lemma descend_under:
  assumes "under dest cur" "cur \<noteq> []" "last cur \<noteq> CHR ''/''"
    and "c \<noteq> ''..''" "CHR ''/'' \<notin> set c"
  shows "under dest (descend cur c) \<and> descend cur c \<noteq> [] \<and> last (descend cur c) \<noteq> CHR ''/''"
proof (cases "c = [] \<or> c = ''.''")
  case True
  with assms show ?thesis by (auto simp: descend_def)
next
  case False
  then have ne: "c \<noteq> []"
    by simp
  then have "hd c \<in> set c" "last c \<in> set c"
    by simp_all
  with assms(5) ne have c: "c \<noteq> []" "hd c \<noteq> CHR ''/''" "last c \<noteq> CHR ''/''"
    by metis+
  have "descend cur c = cur @ ''/'' @ c"
    using False assms(2-4) c by (simp add: descend_def path_join_def)
  with under_extend [OF assms(1), of c] c show ?thesis
    by simp
qed

lemma walk_under:
  assumes "under dest cur" "cur \<noteq> []" "last cur \<noteq> CHR ''/''"
    and "\<forall>c\<in>set cs. c \<noteq> ''..'' \<and> CHR ''/'' \<notin> set c"
  shows "under dest (foldl descend cur cs)"
  using assms
proof (induction cs arbitrary: cur)
  case Nil
  then show ?case by simp
next
  case (Cons c cs)
  from descend_under [OF Cons.prems(1-3), of c] Cons.prems(4)
  have "under dest (descend cur c)" "descend cur c \<noteq> []" "last (descend cur c) \<noteq> CHR ''/''"
    by simp_all
  from Cons.IH [OF this] Cons.prems(4) show ?case by simp
qed

text \<open>
  Relative names without a \<^verbatim>\<open>..\<close> component stay below the directory they are
  extracted to.
\<close>

lemma relative_names_contained:
  assumes "dest \<noteq> []" "last dest \<noteq> CHR ''/''"
    and "\<forall>(n, nd)\<in>set members.
           (n = [] \<or> hd n \<noteq> CHR ''/'') \<and> ''..'' \<notin> set (split_path n) \<and> \<not> is_link nd"
  shows "contained dest members"
proof -
  have "under dest (member_path dest n) \<and> \<not> is_link nd" if "(n, nd) \<in> set members" for n nd
  proof -
    from that assms(3) have n: "n = [] \<or> hd n \<noteq> CHR ''/''" "''..'' \<notin> set (split_path n)"
      "\<not> is_link nd"
      by auto
    have "\<forall>c\<in>set (split_path n). c \<noteq> ''..'' \<and> CHR ''/'' \<notin> set c"
      using n(2) split_path_no_slash by auto
    from walk_under [OF under_refl assms(1,2) this] n show ?thesis
      by (auto simp: member_path_def)
  qed
  then show ?thesis
    by (auto simp: contained_def list_all_iff)
qed



lemma extract_member_keeps_dir:
  "f p = Some Dir \<Longrightarrow> snd (extract_member dest m f) p = Some Dir"
proof -
  assume d: "f p = Some Dir"
  obtain n nd where m: "m = (n, nd)" by (cases m)
  show ?thesis
    using d by (cases nd) (auto simp: extract_member_def Let_def m)
qed

lemma extractall_keeps_dir:
  "f p = Some Dir \<Longrightarrow> snd (extractall dest members f) p = Some Dir"
proof (induction members arbitrary: f)
  case Nil
  then show ?case by simp
next
  case (Cons m members)
  obtain r g where e: "extract_member dest m f = (r, g)" by (cases "extract_member dest m f")
  from extract_member_keeps_dir [of f p dest m, OF Cons.prems] have g: "g p = Some Dir"
    by (simp add: e)
  show ?case
    by (cases r) (simp_all add: e g Cons.IH [of g, OF g])
qed

lemma rmtree_Dir:
  "f d = Some Dir \<Longrightarrow> rmtree d f = Inr (\<lambda>q. if under d q then None else f q)"
  by (simp add: rmtree_def)



text \<open>A run that unpacks the archive, step by step.\<close>

lemma unpack_run:
  assumes "make_room env s force f = (Inr tmpdir, f0)"
    and "tar_open env (spackfile_path_of s filename) f0 = Inr members"
    and "extractall tmpdir members f0 = (Inr (), f1)"
  shows "unpack env s filename force f = (Inr tmpdir, f1)"
  by (simp add: unpack_def assms pure_def)




text \<open>
  C10. In a run of \<^verbatim>\<open>extract_tarball\<close> that reaches the layout check: if the metadata
  has no \<^verbatim>\<open>buildinfo\<close> section, or the section has no \<^verbatim>\<open>relative_prefix\<close>, the layout
  check passes and the run goes on with the extraction of the payload and the
  relocation. The layout check raises \<^verbatim>\<open>NewLayoutException\<close> only when a relative
  prefix is recorded and differs from the local one.
\<close>

theorem missing_relative_prefix_accepted:
  assumes "unpack env s filename force f = (Inr tmpdir, f1)"
    and "verify_signature env unsigned tmpdir (specfile_path_in s tmpdir) f1 = (Inr (), f1)"
    and "verify_checksum env tmpdir (tarfile_path_in s tmpdir) (specfile_path_in s tmpdir) f1 =
           (Inr (PDict d), f1)"
    and "map_of d ''buildinfo'' = None \<or>
         (\<exists>b. map_of d ''buildinfo'' = Some (PDict b) \<and> map_of b ''relative_prefix'' = None)"
  shows "check_layout env s tmpdir (PDict d) f1 = (Inr (), f1) \<and>
         extract_tarball env s filename allow_root unsigned force f =
           and_then (install_payload env s tmpdir f1)
             (\<lambda>u. relocate_installed env s allow_root tmpdir) \<and>
         (\<forall>d' g g'. check_layout env s tmpdir (PDict d') g = (Inl NewLayoutException, g') \<longrightarrow>
            (\<exists>b old. map_of d' ''buildinfo'' = Some (PDict b) \<and>
               map_of b ''relative_prefix'' = Some old \<and>
               old \<noteq> PStr (relpath env (spec_prefix s) (layout_root env))))"
proof -
  have ok: "check_layout env s tmpdir (PDict d) f1 = (Inr (), f1)"
    using assms(4) by (auto simp: check_layout_def pure_def)
  then have ex: "extract_tarball env s filename allow_root unsigned force f =
           and_then (install_payload env s tmpdir f1)
             (\<lambda>u. relocate_installed env s allow_root tmpdir)"
    by (simp add: extract_tarball_def assms(1-3))
  have only: "\<exists>b old. map_of d' ''buildinfo'' = Some (PDict b) \<and>
               map_of b ''relative_prefix'' = Some old \<and>
               old \<noteq> PStr (relpath env (spec_prefix s) (layout_root env))"
    if "check_layout env s tmpdir (PDict d') g = (Inl NewLayoutException, g')" for d' g g'
  proof (cases "map_of d' ''buildinfo''")
    case None
    with that show ?thesis
      by (simp add: check_layout_def pure_def)
  next
    case (Some b)
    show ?thesis
    proof (cases b)
      case (PDict bd)
      with Some that show ?thesis
        by (cases "map_of bd ''relative_prefix''")
           (auto simp: check_layout_def pure_def discard_and_raise_def rmtree_def
              split: if_splits option.splits node.splits)
    qed (use Some that in \<open>simp_all add: check_layout_def pure_def\<close>)
  qed
  from ok ex only show ?thesis by blast
qed





text \<open>
  Hashing block by block is hashing the whole file, for a hasher whose updates compose
  (as those of \<^verbatim>\<open>hashlib\<close> do).
\<close>

lemma hash_blocks_whole:
  assumes "\<And>h a b. sha_update env (sha_update env h a) b = sha_update env h (a @ b)"
  shows "hash_blocks env h bytes = (if bytes = [] then h else sha_update env h bytes)"
proof (induction "length bytes" arbitrary: h bytes rule: less_induct)
  case less
  show ?case
  proof (cases "bytes = []")
    case True
    then show ?thesis
      by (simp add: hash_blocks.simps [of env h "[]"])
  next
    case False
    then have "length (drop 65536 bytes) < length bytes"
      by simp
    from less [OF this] have ih: "hash_blocks env (sha_update env h (take 65536 bytes))
          (drop 65536 bytes) =
        (if drop 65536 bytes = [] then sha_update env h (take 65536 bytes)
         else sha_update env (sha_update env h (take 65536 bytes)) (drop 65536 bytes))" .
    from False have "hash_blocks env h bytes =
        hash_blocks env (sha_update env h (take 65536 bytes)) (drop 65536 bytes)"
      by (simp add: hash_blocks.simps [of env h bytes])
    also have "\<dots> = sha_update env h bytes"
      unfolding ih by (simp add: assms)
    finally show ?thesis
      using False by simp
  qed
qed

subsection \<open>Runs on the concrete host\<close>

lemma hash_blocks_short:
  assumes "length bytes \<le> 65536"
  shows "hash_blocks env h bytes = (if bytes = [] then h else sha_update env h bytes)"
proof (cases "bytes = []")
  case True
  then show ?thesis by (simp add: hash_blocks.simps [of env h "[]"])
next
  case False
  with assms show ?thesis
    by (simp add: hash_blocks.simps [of env h bytes] hash_blocks.simps [of env _ "[]"])
qed

lemma zlib_names:
  "tarball_name zlib ''.spack'' = ''linux-x86_64-gcc-9.1-zlib-1.2.11-abcdefg.spack''"
  "tarball_name zlib ''.tar.gz'' = tgz"
  "tarball_name zlib ''.spec.yaml'' = yml"
  by (simp_all add: tarball_name_def replace_at_def zlib_def tgz_def yml_def)

lemma zlib_paths:
  "tarfile_path_in zlib ''/tmp/t'' = ''/tmp/t/'' @ tgz"
  "specfile_path_in zlib ''/tmp/t'' = ''/tmp/t/'' @ yml"
  "specfile_path_in zlib ''/tmp/t'' @ ''.asc'' = ''/tmp/t/'' @ asc"
  "spackfile_path_of zlib spackfile = spackfile"
  by (simp_all add: tarfile_path_in_def specfile_path_in_def spackfile_path_of_def zlib_names
      path_join_def tgz_def yml_def asc_def spackfile_def dirname_def)

lemma split_path_plain: "CHR ''/'' \<notin> set n \<Longrightarrow> split_path n = [n]"
  by (induction n) auto

lemma member_path_plain:
  assumes "CHR ''/'' \<notin> set n" "n \<noteq> []" "n \<noteq> ''.''" "n \<noteq> ''..''"
    and "dest \<noteq> []" "last dest \<noteq> CHR ''/''"
  shows "member_path dest n = dest @ ''/'' @ n"
proof -
  from assms(1,2) have "hd n \<noteq> CHR ''/''"
    using hd_in_set [of n] by metis
  with assms show ?thesis
    by (simp add: member_path_def split_path_plain descend_def path_join_def)
qed

lemma member_paths:
  "member_path ''/tmp/t'' tgz = ''/tmp/t/'' @ tgz"
  "member_path ''/tmp/t'' yml = ''/tmp/t/'' @ yml"
  "member_path ''/tmp/t'' asc = ''/tmp/t/'' @ asc"
  "member_path ''/tmp/t'' ''zlib'' = ''/tmp/t/zlib''"
  "member_path ''/tmp/t'' ''zlib/libz.so'' = ''/tmp/t/zlib/libz.so''"
  "member_path ''/tmp/t'' ''zlib/.spack'' = ''/tmp/t/zlib/.spack''"
  "member_path ''/tmp/t'' ''zlib/.spack/binary_distribution'' =
     ''/tmp/t/zlib/.spack/binary_distribution''"
  "member_path ''/tmp/t'' ''/opt/zlib'' = ''/opt/zlib''"
  "member_path ''/tmp/t'' ''/opt/zlib/libz.so'' = ''/opt/zlib/libz.so''"
  by (simp_all add: member_path_plain tgz_def yml_def asc_def)
     (simp_all add: member_path_def descend_def path_join_def)


lemma host_fields:
  "untar host = members_of" "syaml_load host = metadata_of" "ruamel_load host = metadata_of"
  "sha_init host = []" "sha_update host = (\<lambda>h b. h @ b)" "sha_hexdigest host = (\<lambda>h. ''sha:'' @ h)"
  "layout_root host = ''/opt''" "relpath host = (\<lambda>p start. drop (length start + 1) p)"
  "gpg_verify host = (\<lambda>sg c. if sg = ''sig:'' @ c then None
                            else Some (OtherError ''BAD signature''))"
  "install_tree host = copy_tree"
  "metadata_dir host = ''.spack''" "manifest_file_name host = ''install_manifest.json''"
  "spack_prefix host = ''/spack''"
  "mkdtemp host = (\<lambda>f. if f ''/tmp/t'' = None then ''/tmp/t'' else ''/tmp/u'')"
  by (simp_all add: host_def)

lemma make_room_stage:
  "make_room host zlib force (stage b) = (Inr ''/tmp/t'', (stage b)(''/tmp/t'' \<mapsto> Dir))"
  by (simp add: make_room_def zlib_fields path_exists_def host_fields Let_def)
     (simp add: stage_def spackfile_def)

lemma tar_open_stage:
  "members_of b = Some ms \<Longrightarrow>
   tar_open host (spackfile_path_of zlib spackfile) ((stage b)(''/tmp/t'' \<mapsto> Dir)) = Inr ms"
  unfolding zlib_paths
  by (simp add: tar_open_def read_file_def host_fields stage_def spackfile_def)

lemma extractall_result:
  "fst (extractall dest ms g) = Inr () \<Longrightarrow>
   extractall dest ms g = (Inr (), snd (extractall dest ms g))"
  by (metis prod.collapse)

lemmas extract_defs =
  extract_member_def Let_def member_paths member_paths [unfolded tgz_def yml_def asc_def]
  is_link_def

lemmas example_defs =
  unpacked_def extract_defs stage_def installed_def spackfile_def tgz_def yml_def asc_def
  members_of_def metadata_of_def

lemma extract_stage:
  assumes "fst (extractall ''/tmp/t'' ms ((stage b)(''/tmp/t'' \<mapsto> Dir))) = Inr ()"
  shows "extractall ''/tmp/t'' ms ((stage b)(''/tmp/t'' \<mapsto> Dir)) = (Inr (), unpacked (stage b) ms)"
  unfolding unpacked_def by (rule extractall_result [OF assms])




lemma checksum_ok_stage:
  assumes "map_of ms tgz = Some (File ''payload'')"
    "map_of ms yml = Some (File c)" "metadata_of c = Inr (PDict d)"
    "map_of d ''binary_cache_checksum'' = Some (PDict k)"
    "map_of k ''hash'' = Some (PStr ''sha:payload'')"
    "unpacked f ms (''/tmp/t/'' @ tgz) = Some (File ''payload'')"
    "unpacked f ms (''/tmp/t/'' @ yml) = Some (File c)"
  shows "verify_checksum host ''/tmp/t'' (tarfile_path_in zlib ''/tmp/t'')
           (specfile_path_in zlib ''/tmp/t'') (unpacked f ms) = (Inr (PDict d), unpacked f ms)"
  using assms
  by (simp add: verify_checksum_def pure_def checksum_tarball_def read_file_def zlib_paths
      hash_blocks_short host_fields)










lemma unpack_stage:
  assumes "members_of b = Some ms"
    and "fst (extractall ''/tmp/t'' ms ((stage b)(''/tmp/t'' \<mapsto> Dir))) = Inr ()"
  shows "unpack host zlib spackfile force (stage b) = (Inr ''/tmp/t'', unpacked (stage b) ms)"
  by (rule unpack_run [OF make_room_stage tar_open_stage [OF assms(1)] extract_stage [OF assms(2)]])

text \<open>The payload, extracted where nothing of it was before.\<close>

lemma payload_extracted:
  assumes "f1 ''/tmp/t/zlib'' = None" "f1 ''/tmp/t/zlib/libz.so'' = None"
    and "f1 ''/tmp/t/zlib/.spack'' = None" "f1 ''/tmp/t/zlib/.spack/binary_distribution'' = None"
  shows "extractall ''/tmp/t'' payload_members f1 =
           (Inr (), f1(''/tmp/t/zlib'' \<mapsto> Dir, ''/tmp/t/zlib/libz.so'' \<mapsto> File ''elf'',
                       ''/tmp/t/zlib/.spack'' \<mapsto> Dir,
                       ''/tmp/t/zlib/.spack/binary_distribution'' \<mapsto> File ''bi''))"
  using assms by (simp add: payload_members_def extract_defs)

lemma install_payload_host:
  assumes "f1 (''/tmp/t/'' @ tgz) = Some (File ''payload'')"
    and "f1 (''/tmp/t/'' @ yml) = Some (File c)"
    and "f1 ''/tmp/t/zlib'' = None" "f1 ''/tmp/t/zlib/libz.so'' = None"
    and "f1 ''/tmp/t/zlib/.spack'' = None" "f1 ''/tmp/t/zlib/.spack/binary_distribution'' = None"
  shows "install_payload host zlib ''/tmp/t'' f1 = (Inr (), installed_from f1)"
proof -
  let ?fe = "f1(''/tmp/t/zlib'' \<mapsto> Dir, ''/tmp/t/zlib/libz.so'' \<mapsto> File ''elf'',
                ''/tmp/t/zlib/.spack'' \<mapsto> Dir,
                ''/tmp/t/zlib/.spack/binary_distribution'' \<mapsto> File ''bi'')"
  note x = payload_extracted [OF assms(3-6)]
  have e: "?fe ''/tmp/t/zlib'' = Some Dir" "?fe (''/tmp/t/'' @ tgz) = Some (File ''payload'')"
    "?fe (''/tmp/t/'' @ yml) = Some (File c)"
    using assms(1,2) by (simp_all add: tgz_def yml_def)
  have w: "path_join ''/tmp/t'' (basename ''/opt/zlib'') = ''/tmp/t/zlib''"
    by (simp add: basename_def path_join_def)
  have m: "members_of ''payload'' = Some payload_members"
    by (simp add: members_of_def payload_members_def)
  have o: "tar_open host (tarfile_path_in zlib ''/tmp/t'') f1 = Inr payload_members"
    using assms(1) unfolding zlib_paths by (simp add: tar_open_def read_file_def host_fields m)
  obtain fc where fc: "copy_tree ''/tmp/t/zlib'' ''/opt/zlib'' ?fe = (None, fc)"
    and at: "fc (''/tmp/t/'' @ tgz) = Some (File ''payload'')"
      "fc (''/tmp/t/'' @ yml) = Some (File c)"
    using e by (simp add: copy_tree_def tgz_def yml_def)
  have "install_payload host zlib ''/tmp/t'' f1 =
      (Inr (), (fc(''/tmp/t/'' @ tgz := None))(''/tmp/t/'' @ yml := None))"
    using at unfolding install_payload_def pure_def o and_then_Inr x
    by (simp add: zlib_paths host_fields w
        call_def fc lift_def os_remove_def Let_def tgz_def yml_def zlib_fields)
  then show ?thesis
    by (simp add: installed_from_def x fc)
qed

lemma installed_from_at:
  assumes "f1 ''/opt/zlib/.spack/install_manifest.json'' = None"
    and "f1 ''/tmp/t/zlib/.spack/install_manifest.json'' = None"
    and "f1 ''/tmp/t/zlib'' = None" "f1 ''/tmp/t/zlib/libz.so'' = None"
    and "f1 ''/tmp/t/zlib/.spack'' = None" "f1 ''/tmp/t/zlib/.spack/binary_distribution'' = None"
  shows "installed_from f1 ''/opt/zlib'' = Some Dir"
    "installed_from f1 ''/opt/zlib/libz.so'' = Some (File ''elf'')"
    "installed_from f1 ''/opt/zlib/.spack/binary_distribution'' = Some (File ''bi'')"
    "installed_from f1 ''/opt/zlib/.spack/install_manifest.json'' = None"
  using assms(1,2)
  by (simp_all add: installed_from_def copy_tree_def payload_extracted [OF assms(3-6)]
      tgz_def yml_def)

lemma relocate_package_host:
  assumes "f ''/opt/zlib/.spack/binary_distribution'' = Some (File ''bi'')"
  shows "relocate_package host ''/opt/zlib'' zlib ar f = (Inr (), f)"
    and "relocate_package failing_host ''/opt/zlib'' zlib ar f =
           (Inl (OtherError ''patchelf''), f(''/opt/zlib/libz.so'' \<mapsto> File ''half''))"
  using assms
  by (simp_all add: relocate_package_def pure_def read_buildinfo_file_def
      buildinfo_file_name_def path_join_def read_file_def host_def failing_host_def
      metadata_of_def Let_def call_def zlib_fields)

lemma installed_from_outside:
  assumes "\<not> prefix ''/opt/zlib/'' q" "q \<noteq> ''/opt/zlib''" "\<not> prefix ''/tmp/t/'' q"
    and "f1 ''/tmp/t/zlib'' = None" "f1 ''/tmp/t/zlib/libz.so'' = None"
    and "f1 ''/tmp/t/zlib/.spack'' = None" "f1 ''/tmp/t/zlib/.spack/binary_distribution'' = None"
  shows "installed_from f1 q = f1 q"
proof -
  let ?fe = "f1(''/tmp/t/zlib'' \<mapsto> Dir, ''/tmp/t/zlib/libz.so'' \<mapsto> File ''elf'',
                ''/tmp/t/zlib/.spack'' \<mapsto> Dir,
                ''/tmp/t/zlib/.spack/binary_distribution'' \<mapsto> File ''bi'')"
  have ne: "q \<noteq> ''/tmp/t/'' @ tgz" "q \<noteq> ''/tmp/t/'' @ yml" "q \<noteq> ''/tmp/t/zlib''"
    "q \<noteq> ''/tmp/t/zlib/libz.so''" "q \<noteq> ''/tmp/t/zlib/.spack''"
    "q \<noteq> ''/tmp/t/zlib/.spack/binary_distribution''"
    using assms(3) by (auto simp: prefix_def)
  then have fe: "?fe q = f1 q"
    by simp
  have dir: "?fe ''/tmp/t/zlib'' = Some Dir"
    by simp
  from assms(1) have np: "\<not> prefix (''/opt/zlib'' @ ''/'') q"
    by simp
  have "installed_from f1 q = snd (copy_tree ''/tmp/t/zlib'' ''/opt/zlib'' ?fe) q"
    using ne(1,2) by (simp add: installed_from_def payload_extracted [OF assms(4-7)])
  also have "\<dots> = ?fe q"
    using assms(2) np unfolding copy_tree_def dir by simp
  finally show ?thesis
    using fe by simp
qed


lemma unpacked_dir: "unpacked f ms ''/tmp/t'' = Some Dir"
  unfolding unpacked_def by (rule extractall_keeps_dir) simp

theorem missing_relative_prefix_accepted_witness:
  "fst (extract_tarball host zlib spackfile False True False (stage ''plain'')) =
     Inr [NoManifestFile ''zlib/abcdefg''] \<and>
   snd (extract_tarball host zlib spackfile False True False (stage ''plain''))
     ''/opt/zlib/libz.so'' = Some (File ''elf'') \<and>
   snd (extract_tarball host zlib spackfile False True False (stage ''plain''))
     ''/tmp/t'' = None"
proof -
  let ?ms = "[(tgz, File ''payload''), (yml, File ''meta-plain'')]"
  let ?f1 = "unpacked (stage ''plain'') ?ms"
  let ?d = "[(''binary_cache_checksum'',
                   PDict [(''hash_algorithm'', PStr ''sha256''), (''hash'', PStr ''sha:payload'')]),
                  (''full_hash'', PStr ''h1'')]"
  have u: "unpack host zlib spackfile False (stage ''plain'') = (Inr ''/tmp/t'', ?f1)"
    by (rule unpack_stage) (simp add: members_of_def, simp add: extract_defs, simp add: example_defs)
  have s: "verify_signature host True ''/tmp/t'' (specfile_path_in zlib ''/tmp/t'') ?f1 =
      (Inr (), ?f1)"
    by (simp add: verify_signature_def)
  have at: "?f1 (''/tmp/t/'' @ tgz) = Some (File ''payload'')"
    "?f1 (''/tmp/t/'' @ yml) = Some (File ''meta-plain'')"
    by (simp_all add: example_defs)
  have fresh: "?f1 ''/tmp/t/zlib'' = None" "?f1 ''/tmp/t/zlib/libz.so'' = None"
    "?f1 ''/tmp/t/zlib/.spack'' = None" "?f1 ''/tmp/t/zlib/.spack/binary_distribution'' = None"
    by (simp_all add: example_defs)
  have nm: "?f1 ''/opt/zlib/.spack/install_manifest.json'' = None"
    "?f1 ''/tmp/t/zlib/.spack/install_manifest.json'' = None"
    by (simp_all add: example_defs)
  have c: "verify_checksum host ''/tmp/t'' (tarfile_path_in zlib ''/tmp/t'')
           (specfile_path_in zlib ''/tmp/t'') ?f1 = (Inr (PDict ?d), ?f1)"
    by (rule checksum_ok_stage [where c = "''meta-plain''"
          and k = "[(''hash_algorithm'', PStr ''sha256''), (''hash'', PStr ''sha:payload'')]"])
       (simp_all add: example_defs)
  have b: "map_of ?d ''buildinfo'' = None \<or>
         (\<exists>b. map_of ?d ''buildinfo'' = Some (PDict b) \<and> map_of b ''relative_prefix'' = None)"
    by simp
  note ex = missing_relative_prefix_accepted [OF u s c b, of False, THEN conjunct2, THEN conjunct1]
  have ip: "install_payload host zlib ''/tmp/t'' ?f1 = (Inr (), installed_from ?f1)"
    by (rule install_payload_host [OF at fresh])
  note f3 = installed_from_at [of ?f1, OF nm fresh]
  have t: "installed_from ?f1 ''/tmp/t'' = Some Dir"
    by (simp add: installed_from_outside [OF _ _ _ fresh] unpacked_dir)
  have rp: "relocate_package host ''/opt/zlib'' zlib False (installed_from ?f1) =
      (Inr (), installed_from ?f1)"
    by (rule relocate_package_host(1) [of "installed_from ?f1", OF f3(3)])
  have mf: "manifest_file host zlib = ''/opt/zlib/.spack/install_manifest.json''"
    by (simp add: manifest_file_def host_fields zlib_fields path_join_def)
  have "extract_tarball host zlib spackfile False True False (stage ''plain'') =
      (Inr [NoManifestFile ''zlib/abcdefg''],
       \<lambda>q. if under ''/tmp/t'' q then None else installed_from ?f1 q)"
    unfolding ex ip
    by (simp add: relocate_installed_def rp mf path_exists_def f3(4) finally_rmtree_def
        rmtree_Dir [of "installed_from ?f1" "''/tmp/t''", OF t] zlib_fields)
  then show ?thesis
    by (simp add: under_def f3(2))
qed










subsection \<open>The signing key\<close>

text \<open>
  C7. When gpg is available, \<^verbatim>\<open>sign_tarball\<close> signs with the explicit key if one is
  given; with no key given it signs with the default signing key if there is exactly
  one, raises \<^verbatim>\<open>PickKeyException\<close> if there are several and \<^verbatim>\<open>NoKeyException\<close> if
  there are none. Signing with a key is the overwrite guard on the \<^verbatim>\<open>.asc\<close> file
  followed by \<^verbatim>\<open>Gpg.sign\<close> with that key: with no earlier \<^verbatim>\<open>.asc\<close> file the
  signature made with the key is written.
\<close>

theorem sign_tarball_key_selection:
  assumes "has_gnupg2 env"
  shows
   "(key = Some k \<longrightarrow>
       sign_tarball env key force p f = overwrite_and_sign env k force p f) \<and>
    (key = None \<and> signing_keys env = [k] \<longrightarrow>
       sign_tarball env key force p f = overwrite_and_sign env k force p f) \<and>
    (key = None \<and> length (signing_keys env) > 1 \<longrightarrow>
       sign_tarball env key force p f = (Inl (PickKeyException (signing_keys env)), f)) \<and>
    (key = None \<and> signing_keys env = [] \<longrightarrow>
       sign_tarball env key force p f = (Inl NoKeyException, f)) \<and>
    (\<not> path_exists f (p @ ''.asc'') \<and> read_file f p = Inr c \<and> gpg_sign env k c = Inr sg \<longrightarrow>
       overwrite_and_sign env k force p f = (Inr (), f(p @ ''.asc'' \<mapsto> File sg)))"
  using assms
  by (simp add: sign_tarball_def select_key_def pure_def overwrite_and_sign_def
      gpg_sign_file_def write_file_def)

theorem sign_tarball_key_selection_witness:
  "has_gnupg2 host \<and>
   sign_tarball host (Some ''K2'') False ''/w/s.yaml'' workfs =
     (Inr (), workfs(''/w/s.yaml.asc'' \<mapsto> File ''sig[K2]:meta'')) \<and>
   sign_tarball host None False ''/w/s.yaml'' workfs =
     (Inr (), workfs(''/w/s.yaml.asc'' \<mapsto> File ''sig:meta'')) \<and>
   sign_tarball (host\<lparr>signing_keys := [''K1'', ''K2'']\<rparr>) None False ''/w/s.yaml'' workfs =
     (Inl (PickKeyException [''K1'', ''K2'']), workfs) \<and>
   sign_tarball (host\<lparr>signing_keys := []\<rparr>) None False ''/w/s.yaml'' workfs =
     (Inl NoKeyException, workfs)"
proof -
  have g: "has_gnupg2 host" "has_gnupg2 (host\<lparr>signing_keys := [''K1'', ''K2'']\<rparr>)"
    "has_gnupg2 (host\<lparr>signing_keys := []\<rparr>)"
    by (simp_all add: host_def)
  have w: "\<not> path_exists workfs (''/w/s.yaml'' @ ''.asc'')" "read_file workfs ''/w/s.yaml'' = Inr ''meta''"
    by (simp_all add: workfs_def path_exists_def read_file_def)
  have k: "signing_keys host = [''K1'']" "gpg_sign host ''K1'' ''meta'' = Inr ''sig:meta''"
    "gpg_sign host ''K2'' ''meta'' = Inr ''sig[K2]:meta''"
    by (simp_all add: host_def)
  have "sign_tarball host (Some ''K2'') False ''/w/s.yaml'' workfs =
     (Inr (), workfs(''/w/s.yaml.asc'' \<mapsto> File ''sig[K2]:meta''))"
    using sign_tarball_key_selection [OF g(1), of "Some ''K2''" "''K2''" False "''/w/s.yaml''" workfs
        "''meta''" "''sig[K2]:meta''"] w k
    by simp
  moreover have "sign_tarball host None False ''/w/s.yaml'' workfs =
     (Inr (), workfs(''/w/s.yaml.asc'' \<mapsto> File ''sig:meta''))"
    using sign_tarball_key_selection [OF g(1), of None "''K1''" False "''/w/s.yaml''" workfs
        "''meta''" "''sig:meta''"] w k
    by simp
  moreover have "sign_tarball (host\<lparr>signing_keys := [''K1'', ''K2'']\<rparr>) None False ''/w/s.yaml'' workfs =
     (Inl (PickKeyException [''K1'', ''K2'']), workfs)"
    using sign_tarball_key_selection [OF g(2), of None _ False "''/w/s.yaml''" workfs]
    by simp
  moreover have "sign_tarball (host\<lparr>signing_keys := []\<rparr>) None False ''/w/s.yaml'' workfs =
     (Inl NoKeyException, workfs)"
    using sign_tarball_key_selection [OF g(3), of None _ False "''/w/s.yaml''" workfs]
    by simp
  ultimately show ?thesis using g(1) by blast
qed

subsection \<open>The cache of \<^verbatim>\<open>get_specs\<close>\<close>

lemma stage_link_cached:
  "stage_link env force link st = (r, st') \<Longrightarrow> cached_specs st' = cached_specs st"
  by (auto simp: stage_link_def and_then_def asked_def Let_def
      split: if_splits sum.splits prod.splits)

lemma read_specs_cached:
  "read_specs env force links st = (Inr u, st') \<Longrightarrow> cached_specs st \<noteq> None \<Longrightarrow>
   cached_specs st' \<noteq> None"
proof (induction links arbitrary: st)
  case Nil
  then show ?case by simp
next
  case (Cons link links)
  obtain r st1 where sl: "stage_link env force link st = (r, st1)"
    by (cases "stage_link env force link st")
  from stage_link_cached [OF sl] Cons.prems(2) have c1: "cached_specs st1 \<noteq> None"
    by simp
  show ?case
  proof (cases r)
    case (Inl e)
    with Cons.prems(1) sl show ?thesis by simp
  next
    case (Inr staged)
    show ?thesis
    proof (cases staged)
      case False
      with Cons.prems(1) sl Inr have "read_specs env force links st1 = (Inr u, st')"
        by simp
      from Cons.IH [OF this c1] show ?thesis .
    next
      case True
      with Cons.prems(1) sl Inr obtain sp xs where
        "cached_specs st1 = Some xs"
        "read_specs env force links (st1\<lparr>cached_specs := Some (xs @ [sp])\<rparr>) = (Inr u, st')"
        by (auto simp: pure_def append_cached_def and_then_def split: sum.splits option.splits)
      from Cons.IH [OF this(2)] show ?thesis by simp
    qed
  qed
qed

lemma get_specs_result_cached:
  assumes "get_specs env force st = (Inr (SpecList xs), st')"
  shows "cached_specs st' = Some xs"
proof (cases "\<exists>y ys. cached_specs st = Some (y # ys)")
  case True
  with assms show ?thesis
    by (auto simp: get_specs_def)
next
  case False
  then have miss: "get_specs env force st =
      (if mirror_collection env = [] then (Inr EmptyDict, st)
       else and_then (collect_urls env (mirror_collection env) [] st) (\<lambda>urls st.
            and_then (read_specs env force (remdups urls) (st\<lparr>cached_specs := Some []\<rparr>))
              (\<lambda>_ st. (Inr (SpecList (case cached_specs st of None \<Rightarrow> [] | Some xs \<Rightarrow> xs)), st))))"
    by (auto simp: get_specs_def split: option.splits list.splits)
  with assms obtain urls st1 u where
    rs: "read_specs env force (remdups urls) (st1\<lparr>cached_specs := Some []\<rparr>) = (Inr u, st')"
    and xs: "xs = (case cached_specs st' of None \<Rightarrow> [] | Some xs \<Rightarrow> xs)"
    by (auto simp: and_then_def split: if_splits sum.splits prod.splits)
  from read_specs_cached [OF rs] have "cached_specs st' \<noteq> None"
    by simp
  with xs show ?thesis
    by (cases "cached_specs st'") simp_all
qed

lemma get_specs_hit:
  "cached_specs st = Some xs \<Longrightarrow> xs \<noteq> [] \<Longrightarrow>
   get_specs env force st = (Inr (SpecList xs), st)"
  by (cases xs) (simp_all add: get_specs_def)

lemma get_specs_calls_hit:
  "cached_specs st = Some xs \<Longrightarrow> xs \<noteq> [] \<Longrightarrow>
   get_specs_calls cs st = (replicate (length cs) (Inr (SpecList xs)), st)"
  by (induction cs) (auto simp: get_specs_hit)

text \<open>
  C9, as amended. Once a call of \<^verbatim>\<open>get_specs\<close> has returned a list of specs that is
  not empty, every later call, with any value of \<^verbatim>\<open>force\<close> and whatever the mirrors
  hold by then, returns that list and leaves the state of the process as it is: no
  mirror is queried and no file is fetched.
\<close>

theorem get_specs_nonempty_cache_is_final:
  assumes "get_specs env force st = (Inr (SpecList xs), st')" and "xs \<noteq> []"
  shows "get_specs_calls cs st' = (replicate (length cs) (Inr (SpecList xs)), st')"
proof -
  from get_specs_result_cached [OF assms(1)] have "cached_specs st' = Some xs" .
  then show ?thesis
    using assms(2) by (rule get_specs_calls_hit)
qed


lemma quiet_fields:
  "mirror_collection quiet_mirror = [\<lparr>mirror_name = ''m'', fetch_url = ''http://m''\<rparr>]"
  "local_file_path quiet_mirror = (\<lambda>u. None)" "mirror_url_join quiet_mirror = (\<lambda>a b. a @ ''/'' @ b)"
  "spider quiet_mirror = (\<lambda>u. Inr [])" "save_filename quiet_mirror = (\<lambda>l. ''/stage/z'')"
  "stage_fetch quiet_mirror = (\<lambda>l. Inr ''zlib-yaml'')"
  "from_yaml quiet_mirror = (\<lambda>c. if c = ''zlib-yaml'' then Inr zlib else Inl (OtherError ''yaml''))"
  by (simp_all add: quiet_mirror_def)

lemma serving_fields:
  "mirror_collection serving_mirror = [\<lparr>mirror_name = ''m'', fetch_url = ''http://m''\<rparr>]"
  "local_file_path serving_mirror = (\<lambda>u. None)"
  "mirror_url_join serving_mirror = (\<lambda>a b. a @ ''/'' @ b)"
  "spider serving_mirror = (\<lambda>u. Inr [''http://m/build_cache/z.spec.yaml''])"
  "save_filename serving_mirror = (\<lambda>l. ''/stage/z'')"
  "stage_fetch serving_mirror = (\<lambda>l. Inr ''zlib-yaml'')"
  "from_yaml serving_mirror = (\<lambda>c. if c = ''zlib-yaml'' then Inr zlib else Inl (OtherError ''yaml''))"
  by (simp_all add: serving_mirror_def quiet_mirror_def)

lemma found: "re_search_spec_yaml ''http://m/build_cache/z.spec.yaml''"
  by (simp add: match_spec_yaml_here_def)

lemma zlib_marked: "zlib\<lparr>concrete := True\<rparr> = zlib"
  by (simp add: zlib_def)

lemma get_specs_quiet:
  "cached_specs st = None \<or> cached_specs st = Some [] \<Longrightarrow>
   get_specs quiet_mirror force st =
     (Inr (SpecList []),
      st\<lparr>queries := queries st @ [Spider ''http://m/build_cache/index.html''],
         cached_specs := Some []\<rparr>)"
  by (auto simp: get_specs_def quiet_fields build_cache_relative_path_def asked_def)

lemma get_specs_serving:
  assumes "cached_specs st = None \<or> cached_specs st = Some []" "disk st ''/stage/z'' = None"
  shows "get_specs serving_mirror force st =
     (Inr (SpecList [zlib]),
      st\<lparr>queries := queries st @ [Spider ''http://m/build_cache/index.html'',
                                     StageFetch ''http://m/build_cache/z.spec.yaml''],
         disk := write_file ''/stage/z'' ''zlib-yaml'' (disk st),
         cached_specs := Some [zlib]\<rparr>)"
  using assms
  by (auto simp: get_specs_def serving_fields build_cache_relative_path_def asked_def found
      stage_link_def path_exists_def pure_def read_file_def write_file_def append_cached_def
      zlib_marked simp del: re_search_spec_yaml.simps)

theorem get_specs_nonempty_cache_is_final_witness:
  "fst (get_specs serving_mirror False fresh_process) = Inr (SpecList [zlib]) \<and>
   get_specs_calls [(quiet_mirror, True), (serving_mirror, False)]
       (snd (get_specs serving_mirror False fresh_process)) =
     ([Inr (SpecList [zlib]), Inr (SpecList [zlib])],
      snd (get_specs serving_mirror False fresh_process))"
proof -
  obtain st' where g: "get_specs serving_mirror False fresh_process = (Inr (SpecList [zlib]), st')"
    using get_specs_serving [of fresh_process False]
    by (simp add: fresh_process_def)
  from get_specs_nonempty_cache_is_final [OF g, of "[(quiet_mirror, True), (serving_mirror, False)]"]
  show ?thesis
    by (simp add: g)
qed

text \<open>
  C9 as stated fails: a call that returned the empty list is followed by calls that
  query the mirror again, and by one that returns another list once the mirror serves
  a spec.
\<close>

theorem get_specs_empty_result_not_cached:
  "fst (get_specs_calls [(quiet_mirror, False), (quiet_mirror, True), (serving_mirror, True)]
          fresh_process) =
     [Inr (SpecList []), Inr (SpecList []), Inr (SpecList [zlib])] \<and>
   queries (snd (get_specs_calls
       [(quiet_mirror, False), (quiet_mirror, True), (serving_mirror, True)] fresh_process)) =
     [Spider ''http://m/build_cache/index.html'', Spider ''http://m/build_cache/index.html'',
      Spider ''http://m/build_cache/index.html'',
      StageFetch ''http://m/build_cache/z.spec.yaml'']"
  by (simp add: get_specs_quiet get_specs_serving fresh_process_def)

subsection \<open>The overwrite policy of \<^verbatim>\<open>build_tarball\<close>\<close>

lemma on_files_remote:
  "on_files step w = (r, w') \<Longrightarrow> remote w' = remote w \<and> remote_log w' = remote_log w"
  by (cases "step (wfiles w)") (auto simp: on_files_def)

lemma push_to_url_cases:
  "push_to_url env p u w = (r, w') \<Longrightarrow>
   (r = Inr () \<and> remote_log w' = remote_log w @ [PushUrl u] \<and>
      remote w' = (remote w)(u := remote w' u) \<and> remote w' u \<noteq> None) \<or>
   (isl r \<and> w' = w)"
  unfolding push_to_url_def
  by (cases "read_file (wfiles w) p"; cases "push_error env u") auto


lemma finally_rmtree_world_remote:
  "finally_rmtree_world t (r, w) = (r', w') \<Longrightarrow>
   remote w' = remote w \<and> remote_log w' = remote_log w \<and> (r' = Inr () \<longrightarrow> r = Inr ())"
  unfolding finally_rmtree_world_def
  by (cases "rmtree t (wfiles w)") auto

lemma generate_package_index_log:
  assumes "generate_package_index env c w = (r, w')"
  shows "\<exists>ops. remote_log w' = remote_log w @ ops \<and> list_all is_push ops \<and>
           (\<forall>v. remote w v \<noteq> None \<longrightarrow> remote w' v \<noteq> None)"
proof -
  let ?t = "mkdtemp (local_host env) (wfiles w)"
  let ?w1 = "w\<lparr>wfiles := (wfiles w)(?t \<mapsto> Dir)\<rparr>"
  let ?inner = "and_then (pure (list_url env (remote w) c) ?w1) (\<lambda>entries w.
            push_to_url env (path_join ?t ''index.html'')
              (url_join (local_host env) c ''index.html'')
              (w\<lparr>wfiles := write_file (path_join ?t ''index.html'')
                   (index_page (filter (\<lambda>e. suffix ''.yaml'' e \<or> suffix ''.key'' e) entries))
                   (wfiles w)\<rparr>))"
  obtain r1 w1 where inner: "?inner = (r1, w1)"
    by (cases ?inner)
  from assms have fin: "finally_rmtree_world ?t (r1, w1) = (r, w')"
    unfolding generate_package_index_def Let_def inner .
  have "\<exists>ops. remote_log w1 = remote_log w @ ops \<and> list_all is_push ops \<and>
           (\<forall>v. remote w v \<noteq> None \<longrightarrow> remote w1 v \<noteq> None)"
  proof (cases "list_url env (remote w) c")
    case (Inl e)
    with inner have "w1 = ?w1" by (simp add: pure_def)
    then show ?thesis by simp
  next
    case (Inr entries)
    with inner have "push_to_url env (path_join ?t ''index.html'')
              (url_join (local_host env) c ''index.html'')
              (?w1\<lparr>wfiles := write_file (path_join ?t ''index.html'')
                   (index_page (filter (\<lambda>e. suffix ''.yaml'' e \<or> suffix ''.key'' e) entries))
                   (wfiles ?w1)\<rparr>) = (r1, w1)"
      by (simp add: pure_def)
    from push_to_url_cases [OF this] show ?thesis
    proof (elim disjE conjE)
      assume a: "remote_log w1 = remote_log (?w1\<lparr>wfiles := write_file (path_join ?t ''index.html'')
                   (index_page (filter (\<lambda>e. suffix ''.yaml'' e \<or> suffix ''.key'' e) entries))
                   (wfiles ?w1)\<rparr>) @ [PushUrl (url_join (local_host env) c ''index.html'')]"
        and b: "remote w1 = (remote (?w1\<lparr>wfiles := write_file (path_join ?t ''index.html'')
                   (index_page (filter (\<lambda>e. suffix ''.yaml'' e \<or> suffix ''.key'' e) entries))
                   (wfiles ?w1)\<rparr>))(url_join (local_host env) c ''index.html'' :=
                     remote w1 (url_join (local_host env) c ''index.html''))"
        and c: "remote w1 (url_join (local_host env) c ''index.html'') \<noteq> None"
      have "remote w v \<noteq> None \<longrightarrow> remote w1 v \<noteq> None" for v
        using c by (subst b) simp
      with a show ?thesis by simp
    next
      assume "w1 = ?w1\<lparr>wfiles := write_file (path_join ?t ''index.html'')
                   (index_page (filter (\<lambda>e. suffix ''.yaml'' e \<or> suffix ''.key'' e) entries))
                   (wfiles ?w1)\<rparr>"
      then show ?thesis by simp
    qed
  qed
  with finally_rmtree_world_remote [OF fin] show ?thesis
    by simp
qed


lemma push_keeps:
  assumes "push_to_url env p u w = (r, w')"
  shows "\<forall>v. remote w v \<noteq> None \<longrightarrow> remote w' v \<noteq> None"
  using push_to_url_cases [OF assms]
proof (elim disjE conjE)
  assume b: "remote w' = (remote w)(u := remote w' u)" and c: "remote w' u \<noteq> None"
  show ?thesis
  proof (intro allI impI)
    fix v assume "remote w v \<noteq> None"
    with c show "remote w' v \<noteq> None"
      by (subst b) simp
  qed
next
  assume "w' = w"
  then show ?thesis by simp
qed

lemma package_and_publish_log:
  assumes "package_and_publish env s outdir force rel unsigned ar key ri tmpdir w = (r, w')"
  shows "\<exists>ops. remote_log w' = remote_log w @ ops \<and> list_all is_push ops \<and>
           (\<forall>v. remote w v \<noteq> None \<longrightarrow> remote w' v \<noteq> None) \<and>
           (r = Inr () \<longrightarrow>
              take 2 ops = [PushUrl (remote_spackfile_path (local_host env) s outdir tmpdir),
                            PushUrl (remote_specfile_path (local_host env) s outdir tmpdir)] \<and>
              remote w' (remote_spackfile_path (local_host env) s outdir tmpdir) \<noteq> None \<and>
              remote w' (remote_specfile_path (local_host env) s outdir tmpdir) \<noteq> None)"
proof -
  let ?lh = "local_host env"
  let ?a = "remote_spackfile_path ?lh s outdir tmpdir"
  let ?b = "remote_specfile_path ?lh s outdir tmpdir"
  let ?goal = "\<lambda>r w'. \<exists>ops. remote_log w' = remote_log w @ ops \<and> list_all is_push ops \<and>
           (\<forall>v. remote w v \<noteq> None \<longrightarrow> remote w' v \<noteq> None) \<and>
           (r = Inr () \<longrightarrow> take 2 ops = [PushUrl ?a, PushUrl ?b] \<and>
              remote w' ?a \<noteq> None \<and> remote w' ?b \<noteq> None)"
  obtain r1 w1 where s1: "on_files (package_local ?lh s force rel unsigned ar key tmpdir) w = (r1, w1)"
    by (cases "on_files (package_local ?lh s force rel unsigned ar key tmpdir) w")
  note k1 = on_files_remote [OF s1]
  show ?thesis
  proof (cases r1)
    case (Inl e)
    with assms s1 have "r = Inl e" "w' = w1"
      by (simp_all add: package_and_publish_def Let_def)
    with k1 show ?thesis by simp
  next
    case (Inr u1)
    obtain r2 w2 where s2: "push_to_url env (local_spackfile_path s tmpdir) ?a w1 = (r2, w2)"
      by (cases "push_to_url env (local_spackfile_path s tmpdir) ?a w1")
    note c2 = push_to_url_cases [OF s2] and p2 = push_keeps [OF s2]
    show ?thesis
    proof (cases r2)
      case (Inl e)
      with assms s1 s2 Inr have "r = Inl e" "w' = w2"
        by (simp_all add: package_and_publish_def Let_def)
      with c2 k1 Inl show ?thesis by auto
    next
      case r2: (Inr u2)
      with c2 have l2: "remote_log w2 = remote_log w @ [PushUrl ?a]" and a2: "remote w2 ?a \<noteq> None"
        using k1 by auto
      obtain r3 w3 where s3: "push_to_url env (local_specfile_path ?lh s tmpdir) ?b w2 = (r3, w3)"
        by (cases "push_to_url env (local_specfile_path ?lh s tmpdir) ?b w2")
      note c3 = push_to_url_cases [OF s3] and p3 = push_keeps [OF s3]
      show ?thesis
      proof (cases r3)
        case (Inl e)
        with assms s1 s2 s3 Inr r2 have "r = Inl e" "w' = w3"
          by (simp_all add: package_and_publish_def Let_def)
        with c3 l2 Inl p2 k1 show ?thesis by auto
      next
        case r3: (Inr u3)
        with c3 have l3: "remote_log w3 = remote_log w @ [PushUrl ?a, PushUrl ?b]"
          and b3: "remote w3 ?b \<noteq> None"
          using l2 by auto
        from p3 a2 have a3: "remote w3 ?a \<noteq> None" by simp
        have keep3: "\<forall>v. remote w v \<noteq> None \<longrightarrow> remote w3 v \<noteq> None"
          using p2 p3 k1 by simp
        let ?ix = "if ri then generate_package_index env
                (url_join ?lh outdir (relpath ?lh (build_cache_prefix tmpdir) tmpdir)) w3
              else (Inr (), w3)"
        obtain r4 w4 where s4: "?ix = (r4, w4)"
          by (cases ?ix)
        have fin: "finally_rmtree_world tmpdir (r4, w4) = (r, w')"
          using assms s1 s2 s3 Inr r2 r3 s4
          by (simp add: package_and_publish_def Let_def)
        have "\<exists>ops. remote_log w4 = remote_log w3 @ ops \<and> list_all is_push ops \<and>
           (\<forall>v. remote w3 v \<noteq> None \<longrightarrow> remote w4 v \<noteq> None)"
        proof (cases ri)
          case True
          with s4 have "generate_package_index env
                (url_join ?lh outdir (relpath ?lh (build_cache_prefix tmpdir) tmpdir)) w3 = (r4, w4)"
            by simp
          then show ?thesis by (rule generate_package_index_log)
        next
          case False
          with s4 show ?thesis by auto
        qed
        then obtain ops where o: "remote_log w4 = remote_log w3 @ ops" "list_all is_push ops"
          "\<forall>v. remote w3 v \<noteq> None \<longrightarrow> remote w4 v \<noteq> None"
          by blast
        from finally_rmtree_world_remote [OF fin] o l3 a3 b3 keep3
        show ?thesis
          by (intro exI [of _ "[PushUrl ?a, PushUrl ?b] @ ops"]) simp
      qed
    qed
  qed
qed


lemma overwrite_guard_forced:
  assumes "overwrite_guard env True url w = (r, w')"
  shows "(\<not> url_exists w url \<and> r = Inr () \<and> w' = w) \<or>
         (url_exists w url \<and> isl r \<and> w' = w) \<or>
         (url_exists w url \<and> r = Inr () \<and> remote_log w' = remote_log w @ [RemoveUrl url] \<and>
            remote w' = (remote w)(url := None))"
  using assms unfolding overwrite_guard_def remove_url_def
  by (cases "remove_error env url") (auto split: if_splits)

text \<open>
  C5. For a call of \<^verbatim>\<open>build_tarball\<close> on a concrete spec: if the mirror holds the
  \<^verbatim>\<open>.spack\<close> archive or the \<^verbatim>\<open>.spec.yaml\<close> file under its name and \<^verbatim>\<open>force\<close> is
  not set, the call raises \<^verbatim>\<open>NoOverwriteException\<close> and the mirror is as it was: nothing
  was removed or published. If \<^verbatim>\<open>force\<close> is set, the mutations of the mirror are the
  removals of the artifacts it held, in order, followed by nothing but publications:
  nothing is published before every existing artifact is removed, and a call that
  returns has removed them, then published the archive and the metadata file.
\<close>

theorem build_tarball_overwrite_policy:
  assumes "concrete s"
  shows
    "(\<not> force \<and> (url_exists w (remote_archive env s outdir w) \<or>
                  url_exists w (remote_metadata env s outdir w)) \<longrightarrow>
        (\<exists>u w'. build_tarball env s outdir force rel unsigned allow_root key regenerate_index w =
                  (Inl (NoOverwriteException u), w') \<and>
                remote w' = remote w \<and> remote_log w' = remote_log w)) \<and>
     (force \<longrightarrow>
        (\<exists>r w' rs ops.
           build_tarball env s outdir force rel unsigned allow_root key regenerate_index w =
             (r, w') \<and>
           remote_log w' = remote_log w @ rs @ ops \<and>
           prefix rs (removals w (remote_archive env s outdir w) (remote_metadata env s outdir w)) \<and>
           list_all is_push ops \<and>
           (ops \<noteq> [] \<or> r = Inr () \<longrightarrow>
              rs = removals w (remote_archive env s outdir w) (remote_metadata env s outdir w)) \<and>
           (r = Inr () \<longrightarrow>
              take 2 ops = [PushUrl (remote_archive env s outdir w),
                            PushUrl (remote_metadata env s outdir w)] \<and>
              remote w' (remote_archive env s outdir w) \<noteq> None \<and>
              remote w' (remote_metadata env s outdir w) \<noteq> None)))"
proof -
  let ?lh = "local_host env"
  let ?t = "mkdtemp ?lh (wfiles w)"
  let ?a = "remote_spackfile_path ?lh s outdir ?t"
  let ?b = "remote_specfile_path ?lh s outdir ?t"
  let ?w1 = "w\<lparr>wfiles := (wfiles w)(?t \<mapsto> Dir, tarfile_dir_in s ?t \<mapsto> Dir)\<rparr>"
  let ?build = "build_tarball env s outdir force rel unsigned allow_root key regenerate_index w"
  let ?rest = "package_and_publish env s outdir force rel unsigned allow_root key
                  regenerate_index ?t"
  have ab: "remote_archive env s outdir w = ?a" "remote_metadata env s outdir w = ?b"
    by (simp_all add: remote_archive_def remote_metadata_def)
  have bt: "?build = and_then (overwrite_guard env force ?a ?w1)
      (\<lambda>_ w. and_then (overwrite_guard env force ?b w) (\<lambda>_. ?rest))"
    using assms by (simp add: build_tarball_def Let_def)
  have e1: "url_exists ?w1 u = url_exists w u" for u
    by (simp add: url_exists_def)
  have unforced: "\<exists>u w'. ?build = (Inl (NoOverwriteException u), w') \<and>
                remote w' = remote w \<and> remote_log w' = remote_log w"
    if "\<not> force" "url_exists w ?a \<or> url_exists w ?b"
  proof (cases "url_exists w ?a")
    case True
    with that(1) have "?build = (Inl (NoOverwriteException (url_format ?lh ?a)), ?w1)"
      unfolding bt by (simp add: overwrite_guard_def e1)
    then show ?thesis by simp
  next
    case False
    with that have "?build = (Inl (NoOverwriteException (url_format ?lh ?b)), ?w1)"
      unfolding bt by (simp add: overwrite_guard_def e1)
    then show ?thesis by simp
  qed
  have forced: "\<exists>r w' rs ops. ?build = (r, w') \<and>
           remote_log w' = remote_log w @ rs @ ops \<and>
           prefix rs (removals w ?a ?b) \<and> list_all is_push ops \<and>
           (ops \<noteq> [] \<or> r = Inr () \<longrightarrow> rs = removals w ?a ?b) \<and>
           (r = Inr () \<longrightarrow> take 2 ops = [PushUrl ?a, PushUrl ?b] \<and>
              remote w' ?a \<noteq> None \<and> remote w' ?b \<noteq> None)"
    if force
  proof -
    obtain r2 w2 where g1: "overwrite_guard env True ?a ?w1 = (r2, w2)"
      by (cases "overwrite_guard env True ?a ?w1")
    have first: "(isl r2 \<and> remote_log w2 = remote_log w) \<or>
        (r2 = Inr () \<and>
         remote_log w2 = remote_log w @ (if url_exists w ?a then [RemoveUrl ?a] else []) \<and>
         (url_exists w2 ?b \<longleftrightarrow> url_exists w ?b \<and> (url_exists w ?a \<longrightarrow> ?b \<noteq> ?a)))"
      using overwrite_guard_forced [OF g1]
      by (auto simp: e1 url_exists_def split: if_splits)
    show ?thesis
    proof (cases r2)
      case (Inl e)
      with g1 that have "?build = (Inl e, w2)"
        unfolding bt by simp
      moreover from first Inl have "remote_log w2 = remote_log w @ [] @ []"
        by auto
      ultimately show ?thesis
        by (intro exI [of _ "Inl e"] exI [of _ w2] exI [of _ "[]"]) simp
    next
      case (Inr u2)
      with first have l2: "remote_log w2 = remote_log w @ (if url_exists w ?a then [RemoveUrl ?a] else [])"
        and x2: "url_exists w2 ?b \<longleftrightarrow> url_exists w ?b \<and> (url_exists w ?a \<longrightarrow> ?b \<noteq> ?a)"
        by auto
      obtain r3 w3 where g2: "overwrite_guard env True ?b w2 = (r3, w3)"
        by (cases "overwrite_guard env True ?b w2")
      note c3 = overwrite_guard_forced [OF g2]
      show ?thesis
      proof (cases r3)
        case (Inl e)
        with g1 g2 Inr that have b: "?build = (Inl e, w3)"
          unfolding bt by simp
        from c3 Inl have "w3 = w2" by auto
        with l2 have "remote_log w3 =
            remote_log w @ (if url_exists w ?a then [RemoveUrl ?a] else []) @ []"
          by simp
        with b show ?thesis
          by (intro exI [of _ "Inl e"] exI [of _ w3]
              exI [of _ "if url_exists w ?a then [RemoveUrl ?a] else []"] exI [of _ "[]"])
             (simp add: removals_def)
      next
        case r3: (Inr u3)
        with c3 l2 x2 have l3: "remote_log w3 = remote_log w @ removals w ?a ?b"
          by (auto simp: removals_def url_exists_def)
        obtain r w' where p: "?rest w3 = (r, w')"
          by (cases "?rest w3")
        from g1 g2 Inr r3 that p have b: "?build = (r, w')"
          unfolding bt by simp
        from package_and_publish_log [OF p] obtain ops where
          o: "remote_log w' = remote_log w3 @ ops" "list_all is_push ops"
            "r = Inr () \<longrightarrow> take 2 ops = [PushUrl ?a, PushUrl ?b] \<and>
              remote w' ?a \<noteq> None \<and> remote w' ?b \<noteq> None"
          by blast
        from b o l3 show ?thesis
          by (intro exI [of _ r] exI [of _ w'] exI [of _ "removals w ?a ?b"] exI [of _ ops]) simp
      qed
    qed
  qed
  from unforced forced show ?thesis
    unfolding ab by blast
qed

lemma pub_fields:
  "local_host pub = host" "push_error pub = (\<lambda>u. None)" "remove_error pub = (\<lambda>u. None)"
  by (simp_all add: pub_def)

lemma built_names:
  "mkdtemp host built = ''/tmp/t''"
  "local_spackfile_path zlib ''/tmp/t'' =
     ''/tmp/t/build_cache/linux-x86_64/gcc-9.1/zlib-1.2.11/linux-x86_64-gcc-9.1-zlib-1.2.11-abcdefg.spack''"
  "local_specfile_path host zlib ''/tmp/t'' =
     ''/tmp/t/build_cache/linux-x86_64-gcc-9.1-zlib-1.2.11-abcdefg.spec.yaml''"
  "local_tarfile_path zlib ''/tmp/t'' =
     ''/tmp/t/build_cache/linux-x86_64/gcc-9.1/zlib-1.2.11/linux-x86_64-gcc-9.1-zlib-1.2.11-abcdefg.tar.gz''"
  "tarfile_dir_in zlib ''/tmp/t'' = ''/tmp/t/build_cache/linux-x86_64/gcc-9.1/zlib-1.2.11''"
  "remote_spackfile_path host zlib ''/mirror'' ''/tmp/t'' = old_archive"
  "remote_specfile_path host zlib ''/mirror'' ''/tmp/t'' = new_metadata"
  by (simp_all add: host_def built_def local_spackfile_path_def local_specfile_path_def
      local_tarfile_path_def tarfile_dir_in_def remote_spackfile_path_def
      remote_specfile_path_def build_cache_prefix_def build_cache_relative_path_def
      path_join_def tarball_path_name_def tarball_directory_name_def tarball_name_def
      replace_at_def zlib_def old_archive_def new_metadata_def)


lemma host_more:
  "mkdtemp host = (\<lambda>f. if f ''/tmp/t'' = None then ''/tmp/t'' else ''/tmp/u'')"
  "tar_of host = (\<lambda>f p a. ''payload'')"
  "mktar host = (\<lambda>ms. if map_of ms asc = None then ''nosig'' else ''signed'')"
  "syaml_dump host = (\<lambda>v. ''meta'')" "realpath host = (\<lambda>p. p)"
  "make_placeholder host = (\<lambda>w s ar f. (None, f))"
  "walk_classify host = (\<lambda>f p. ([], [''libz.so''], []))"
  by (simp_all add: host_def)

lemma package_local_built:
  "\<exists>f9. package_local host zlib True False True False None ''/tmp/t''
           (built(''/tmp/t'' \<mapsto> Dir, tarfile_dir_in zlib ''/tmp/t'' \<mapsto> Dir)) = (Inr (), f9) \<and>
        f9 (local_spackfile_path zlib ''/tmp/t'') = Some (File ''nosig'') \<and>
        f9 (local_specfile_path host zlib ''/tmp/t'') = Some (File ''meta'') \<and>
        f9 ''/tmp/t'' = Some Dir"
  by (simp add: package_local_def Let_def built_names zlib_fields host_more host_fields
      basename_def path_join_def call_def copy_tree_def write_buildinfo_file_def
      buildinfo_file_name_def write_file_def relocate_copy_def lift_def rmtree_def under_def
      pure_def checksum_tarball_def read_file_def hash_blocks_short metadata_of_def
      os_remove_def built_def tgz_def yml_def asc_def zlib_names)


lemma mirror_with_old_fields:
  "wfiles mirror_with_old = built" "remote_log mirror_with_old = []"
  "remote mirror_with_old old_archive = Some ''old''"
  "remote mirror_with_old new_metadata = None"
  "concrete zlib"
  by (simp_all add: mirror_with_old_def old_archive_def new_metadata_def zlib_def)

lemma remote_names:
  "remote_archive pub zlib ''/mirror'' mirror_with_old = old_archive"
  "remote_metadata pub zlib ''/mirror'' mirror_with_old = new_metadata"
  by (simp_all add: remote_archive_def remote_metadata_def pub_fields mirror_with_old_fields
      built_names)

lemma url_exists_wfiles: "url_exists (w\<lparr>wfiles := f\<rparr>) u = url_exists w u"
  by (simp add: url_exists_def)

lemma build_forced_run:
  "\<exists>w9. build_tarball pub zlib ''/mirror'' True False True False None False mirror_with_old =
         (Inr (), w9)"
proof -
  let ?td = "tarfile_dir_in zlib ''/tmp/t''"
  let ?sp = "local_spackfile_path zlib ''/tmp/t''"
  let ?sf = "local_specfile_path host zlib ''/tmp/t''"
  define w1 where "w1 = mirror_with_old\<lparr>wfiles := built(''/tmp/t'' \<mapsto> Dir, ?td \<mapsto> Dir)\<rparr>"
  define w2 where "w2 = w1\<lparr>remote := (remote w1)(old_archive := None),
                 remote_log := remote_log w1 @ [RemoveUrl old_archive]\<rparr>"
  from package_local_built obtain f9 where
    pl: "package_local host zlib True False True False None ''/tmp/t''
           (built(''/tmp/t'' \<mapsto> Dir, ?td \<mapsto> Dir)) = (Inr (), f9)"
    and at: "f9 ?sp = Some (File ''nosig'')" "f9 ?sf = Some (File ''meta'')"
      "f9 ''/tmp/t'' = Some Dir"
    by blast
  define w3 where "w3 = w2\<lparr>wfiles := f9\<rparr>"
  define w4 where "w4 = w3\<lparr>wfiles := (wfiles w3)(?sp := None),
      remote := (remote w3)(old_archive \<mapsto> ''nosig''),
      remote_log := remote_log w3 @ [PushUrl old_archive]\<rparr>"
  define w5 where "w5 = w4\<lparr>wfiles := (wfiles w4)(?sf := None),
      remote := (remote w4)(new_metadata \<mapsto> ''meta''),
      remote_log := remote_log w4 @ [PushUrl new_metadata]\<rparr>"
  have ne: "?sf \<noteq> ?sp" "?sp \<noteq> ''/tmp/t''" "?sf \<noteq> ''/tmp/t''"
    by (simp_all add: built_names)
  have nm: "new_metadata \<noteq> old_archive"
    by (simp add: old_archive_def new_metadata_def)
  have g1: "overwrite_guard pub True old_archive w1 = (Inr (), w2)"
    by (simp add: overwrite_guard_def url_exists_def remove_url_def pub_fields
        mirror_with_old_fields w1_def w2_def)
  have g2: "overwrite_guard pub True new_metadata w2 = (Inr (), w2)"
    by (simp add: overwrite_guard_def url_exists_def mirror_with_old_fields nm w1_def w2_def)
  have p: "on_files (package_local host zlib True False True False None ''/tmp/t'') w2 =
      (Inr (), w3)"
    by (simp add: on_files_def pl w1_def w2_def w3_def)
  have p1: "push_to_url pub ?sp old_archive w3 = (Inr (), w4)"
    by (simp add: push_to_url_def read_file_def at w3_def w4_def pub_fields)
  have p2: "push_to_url pub ?sf new_metadata w4 = (Inr (), w5)"
    using ne(1)
    by (simp add: push_to_url_def read_file_def at w3_def w4_def w5_def pub_fields)
  have t: "wfiles w5 ''/tmp/t'' = Some Dir"
    using ne(2,3) by (simp add: w5_def w4_def w3_def at)
  have fin: "\<exists>w6. finally_rmtree_world ''/tmp/t'' (Inr (), w5) = (Inr (), w6)"
    by (simp add: finally_rmtree_world_def rmtree_def t)
  have "\<exists>w9. package_and_publish pub zlib ''/mirror'' True False True False None False
      ''/tmp/t'' w2 = (Inr (), w9)"
    unfolding package_and_publish_def Let_def pub_fields p built_names(6,7) and_then_Inr p1 p2
    using fin by simp
  then obtain w9 where "package_and_publish pub zlib ''/mirror'' True False True False None False
      ''/tmp/t'' w2 = (Inr (), w9)"
    by blast
  then have "build_tarball pub zlib ''/mirror'' True False True False None False mirror_with_old =
         (Inr (), w9)"
    unfolding build_tarball_def Let_def pub_fields mirror_with_old_fields built_names(1,6,7)
    using g1 g2 mirror_with_old_fields(5)
    by (simp add: w1_def [symmetric])
  then show ?thesis by blast
qed

theorem build_tarball_overwrite_policy_witness:
  "concrete zlib \<and>
   fst (build_tarball pub zlib ''/mirror'' False False True False None False mirror_with_old) =
     Inl (NoOverwriteException old_archive) \<and>
   remote_log (snd (build_tarball pub zlib ''/mirror'' False False True False None False
                      mirror_with_old)) = [] \<and>
   remote (snd (build_tarball pub zlib ''/mirror'' False False True False None False
                  mirror_with_old)) old_archive = Some ''old'' \<and>
   fst (build_tarball pub zlib ''/mirror'' True False True False None False mirror_with_old) =
     Inr () \<and>
   take 3 (remote_log (snd (build_tarball pub zlib ''/mirror'' True False True False None False
                              mirror_with_old))) =
     [RemoveUrl old_archive, PushUrl old_archive, PushUrl new_metadata] \<and>
   list_all is_push (drop 1 (remote_log (snd (build_tarball pub zlib ''/mirror'' True False True
                                                False None False mirror_with_old))))"
proof -
  note c = mirror_with_old_fields(5)
  note pol = build_tarball_overwrite_policy [OF c, of _ mirror_with_old pub "''/mirror''"
      False True False None False, unfolded remote_names]
  have ex: "url_exists mirror_with_old old_archive" "\<not> url_exists mirror_with_old new_metadata"
    by (simp_all add: url_exists_def mirror_with_old_fields)
  from pol [of False, THEN conjunct1] ex obtain u w' where
    nf: "build_tarball pub zlib ''/mirror'' False False True False None False mirror_with_old =
           (Inl (NoOverwriteException u), w')"
      "remote w' = remote mirror_with_old" "remote_log w' = remote_log mirror_with_old"
    by auto
  have "build_tarball pub zlib ''/mirror'' False False True False None False mirror_with_old =
      (Inl (NoOverwriteException (url_format host old_archive)),
       mirror_with_old\<lparr>wfiles := built(''/tmp/t'' \<mapsto> Dir,
          tarfile_dir_in zlib ''/tmp/t'' \<mapsto> Dir)\<rparr>)"
    using ex
    by (simp add: build_tarball_def c Let_def pub_fields mirror_with_old_fields built_names
        overwrite_guard_def url_exists_wfiles)
  with nf have u: "u = old_archive"
    by (simp add: host_def)
  from build_forced_run obtain w9 where
    run: "build_tarball pub zlib ''/mirror'' True False True False None False mirror_with_old =
         (Inr (), w9)"
    by blast
  from pol [of True, THEN conjunct2] run obtain rs ops where
    f: "remote_log w9 = remote_log mirror_with_old @ rs @ ops" "list_all is_push ops"
      "rs = removals mirror_with_old old_archive new_metadata"
      "take 2 ops = [PushUrl old_archive, PushUrl new_metadata]"
    by auto
  from f(3) ex have rs: "rs = [RemoveUrl old_archive]"
    by (simp add: removals_def)
  from f(4) have "take 3 (RemoveUrl old_archive # ops) =
      [RemoveUrl old_archive, PushUrl old_archive, PushUrl new_metadata]"
    by (simp add: take_Cons')
  with nf u run f(1,2) rs c show ?thesis
    by (simp add: mirror_with_old_fields)
qed

end
